theory Spec2Isabelle
  imports Complex_Main "HOL-Library.Word"
begin

unbundle bit_operations_syntax

section \<open>Payload values\<close>

text \<open>
  A Python string is modelled as the list of its code points, taken below 256 (ASCII and
  Latin-1); \<open>CHR 0x5C\<close> is the backslash and \<open>CHR 0x22\<close> the double quote.

  The payloads the SDK handles are Python values built from dicts, lists, strings and
  anything else. The redaction walk of \<^verbatim>\<open>privacy.py\<close> tests \<^verbatim>\<open>isinstance\<close> for dict,
  list and str in that order and returns every other value as it is, so every other value
  is a \<open>Scalar\<close> of an arbitrary type \<open>'a\<close> (None, bool, int, float, ...). A dict is the list
  of its items in insertion order. A key of a dict is a string (\<open>StrKey\<close>) or one of the
  other keys that a JSON-serializable dict can have, None, a bool or a number (\<open>ObjKey\<close>);
  none of these has a method \<^verbatim>\<open>lower\<close>.
\<close>

datatype 'a key = StrKey string | ObjKey 'a

datatype 'a json =
    Scalar 'a
  | Str string
  | List "'a json list"
  | Dict "('a key \<times> 'a json) list"

text \<open>
  The exceptions that the redaction can raise: what \<^verbatim>\<open>re\<close> raises on a replacement
  template it rejects (\<^verbatim>\<open>re.error\<close>; IndexError for an unknown group name),
  \<^verbatim>\<open>AttributeError\<close> from \<^verbatim>\<open>path.lower()\<close> on a path that is not a string, and whatever the
  formatting of a key in an f-string raises.
\<close>

datatype py_error = Re_error | Attribute_error | Format_error

section \<open>privacy.py: configuration\<close>

text \<open>
  A compiled regular expression (\<^verbatim>\<open>re.Pattern\<close>) belongs to the Python library. It is
  represented by two functions:
  \<^item> \<open>finditer\<close>: the (start, end) positions of its successive non-overlapping matches in a
    string, left to right; a string with no match has the empty list;
  \<^item> \<open>template\<close>: what a replacement string that holds a backslash is compiled to, None
    when the library rejects it (a bad escape, an invalid group reference), and
    otherwise the function that gives, for the searched string and a match, the expanded
    replacement.
\<close>

record Pattern =
  finditer :: "string \<Rightarrow> (nat \<times> nat) list"
  template :: "string \<Rightarrow> (string \<Rightarrow> nat \<times> nat \<Rightarrow> string) option"

record PrivacyConfig =
  enabled :: bool
  redact_patterns :: "Pattern list"
  scrub_paths :: "string list"
  hash_pii :: bool
  hash_salt :: string
  custom_redactor :: "(string \<Rightarrow> string) option"
  redacted_text :: string

text \<open>The dataclass defaults, \<^verbatim>\<open>PrivacyConfig()\<close>.\<close>

definition PrivacyConfig_default :: PrivacyConfig where
  "PrivacyConfig_default =
     \<lparr> enabled = True, redact_patterns = [], scrub_paths = [], hash_pii = False,
       hash_salt = [], custom_redactor = None, redacted_text = ''[REDACTED]'' \<rparr>"

text \<open>\<^verbatim>\<open>add_scrub_path(path)\<close> appends to the configured scrub paths.\<close>

definition add_scrub_path :: "string \<Rightarrow> PrivacyConfig \<Rightarrow> PrivacyConfig" where
  "add_scrub_path path cfg = cfg\<lparr>scrub_paths := scrub_paths cfg @ [path]\<rparr>"

text \<open>
  What the redaction asks of Python about values that are not strings, taken as
  parameters:
  \<^item> \<open>sha256_hex\<close>: \<^verbatim>\<open>hashlib.sha256(s.encode()).hexdigest()\<close>;
  \<^item> \<open>py_bool\<close>: the truth value of an object (\<^verbatim>\<open>if path\<close>);
  \<^item> \<open>py_format\<close>: the text of an object in an f-string, None where formatting raises.
\<close>

record 'a builtins =
  sha256_hex :: "string \<Rightarrow> string"
  py_bool :: "'a \<Rightarrow> bool"
  py_format :: "'a \<Rightarrow> string option"

section \<open>privacy.py: redaction\<close>

text \<open>
  \<^verbatim>\<open>pattern.sub(repl, string)\<close>: the text between the matches is kept and each match is
  replaced. With a function as \<open>repl\<close> the replacement is the function's value on the
  matched text (\<^verbatim>\<open>m.group(0)\<close>). With a string as \<open>repl\<close> the library takes the string
  literally when it holds no backslash; otherwise it compiles it as a template first,
  which raises \<^verbatim>\<open>re.error\<close> for an invalid template even when nothing matches.
\<close>

fun splice :: "(nat \<times> nat \<Rightarrow> string) \<Rightarrow> string \<Rightarrow> nat \<Rightarrow> (nat \<times> nat) list \<Rightarrow> string" where
  "splice repl s pos [] = drop pos s"
| "splice repl s pos ((b, e) # ms) =
     take (b - pos) (drop pos s) @ repl (b, e) @ splice repl s e ms"

definition sub_callable :: "Pattern \<Rightarrow> (string \<Rightarrow> string) \<Rightarrow> string \<Rightarrow> string" where
  "sub_callable pattern repl s =
     splice (\<lambda>(b, e). repl (take (e - b) (drop b s))) s 0 (finditer pattern s)"

definition sub_text :: "Pattern \<Rightarrow> string \<Rightarrow> string \<Rightarrow> py_error + string" where
  "sub_text pattern repl s =
     (if CHR 0x5C \<notin> set repl then Inr (splice (\<lambda>m. repl) s 0 (finditer pattern s))
      else case template pattern repl of
             None \<Rightarrow> Inl Re_error
           | Some expand \<Rightarrow> Inr (splice (expand s) s 0 (finditer pattern s)))"

text \<open>
  \<^verbatim>\<open>str.lower()\<close> on code points below 256: the letters A to Z and the Latin-1 capitals
  (0xC0 to 0xDE without the multiplication sign 0xD7) move up by 32; nothing else changes.
\<close>

definition lower_char :: "char \<Rightarrow> char" where
  "lower_char c =
     (let n = (of_char c :: nat) in
      if (65 \<le> n \<and> n \<le> 90) \<or> (192 \<le> n \<and> n \<le> 222 \<and> n \<noteq> 215) then char_of (n + 32) else c)"

definition lower :: "string \<Rightarrow> string" where
  "lower s = map lower_char s"

definition endswith :: "string \<Rightarrow> string \<Rightarrow> bool" where
  "endswith s suffix =
     (length suffix \<le> length s \<and> drop (length s - length suffix) s = suffix)"

text \<open>\<^verbatim>\<open>_should_scrub_path\<close> on a string path: the loop returns True at the first scrub path
  that fits.\<close>

definition should_scrub_path :: "PrivacyConfig \<Rightarrow> string \<Rightarrow> bool" where
  "should_scrub_path cfg path =
     (let path_lower = lower path in
      list_ex (\<lambda>scrub_path.
                 path_lower = lower scrub_path
                 \<or> endswith path_lower (''.'' @ lower scrub_path))
              (scrub_paths cfg))"

text \<open>\<^verbatim>\<open>_hash_value\<close>: the first four bytes of the digest are its first eight hex digits.\<close>

definition hash_value :: "'a builtins \<Rightarrow> PrivacyConfig \<Rightarrow> string \<Rightarrow> string" where
  "hash_value py cfg v =
     ''[HASH:'' @ take 8 (sha256_hex py (hash_salt cfg @ v)) @ '']''"

text \<open>
  \<^verbatim>\<open>_redact_string\<close>: the custom redactor first, then every pattern in turn (the loop is
  \<open>apply_patterns\<close>); an \<^verbatim>\<open>re.error\<close> of a substitution ends the call.
\<close>

fun apply_patterns ::
  "'a builtins \<Rightarrow> PrivacyConfig \<Rightarrow> Pattern list \<Rightarrow> string \<Rightarrow> py_error + string" where
  "apply_patterns py cfg [] result = Inr result"
| "apply_patterns py cfg (pattern # patterns) result =
     (if hash_pii cfg
      then apply_patterns py cfg patterns (sub_callable pattern (hash_value py cfg) result)
      else case sub_text pattern (redacted_text cfg) result of
             Inl e \<Rightarrow> Inl e
           | Inr r \<Rightarrow> apply_patterns py cfg patterns r)"

definition redact_string :: "'a builtins \<Rightarrow> PrivacyConfig \<Rightarrow> string \<Rightarrow> py_error + string" where
  "redact_string py cfg v =
     (if v = [] then Inr v
      else
        let result = (case custom_redactor cfg of Some f \<Rightarrow> f v | None \<Rightarrow> v)
        in apply_patterns py cfg (redact_patterns cfg) result)"

text \<open>Decimal text of a natural number, for the index in the path of a list item.\<close>

fun str_nat :: "nat \<Rightarrow> string" where
  "str_nat n =
     (if n < 10 then [char_of (48 + n)]
      else str_nat (n div 10) @ [char_of (48 + n mod 10)])"

declare str_nat.simps [simp del]

text \<open>
  The path handed down the walk is the empty string at the root, a string built by an
  f-string, or a dict key itself: \<^verbatim>\<open>f"{path}.{k}" if path else k\<close> passes the key \<open>k\<close> on
  as the path when the path above is false, and a key need not be a string.
  \<open>truthy_key\<close> is \<^verbatim>\<open>if path\<close>, \<open>format_key\<close> the text of a path or key in an f-string.
\<close>

definition truthy_key :: "'a builtins \<Rightarrow> 'a key \<Rightarrow> bool" where
  "truthy_key py k = (case k of StrKey s \<Rightarrow> s \<noteq> [] | ObjKey a \<Rightarrow> py_bool py a)"

definition format_key :: "'a builtins \<Rightarrow> 'a key \<Rightarrow> string option" where
  "format_key py k = (case k of StrKey s \<Rightarrow> Some s | ObjKey a \<Rightarrow> py_format py a)"

definition key_path :: "'a builtins \<Rightarrow> 'a key \<Rightarrow> 'a key \<Rightarrow> py_error + 'a key" where
  "key_path py path k =
     (if truthy_key py path
      then case format_key py path of
             None \<Rightarrow> Inl Format_error
           | Some p \<Rightarrow> (case format_key py k of
                          None \<Rightarrow> Inl Format_error
                        | Some t \<Rightarrow> Inr (StrKey (p @ ''.'' @ t)))
      else Inr k)"

definition item_path :: "'a builtins \<Rightarrow> 'a key \<Rightarrow> nat \<Rightarrow> py_error + 'a key" where
  "item_path py path i =
     (case format_key py path of
        None \<Rightarrow> Inl Format_error
      | Some p \<Rightarrow> Inr (StrKey (p @ ''['' @ str_nat i @ '']'')))"

text \<open>
  The test \<^verbatim>\<open>path and _should_scrub_path(path)\<close> that opens \<^verbatim>\<open>_redact_value\<close>: false for a
  false path; on a true path that is not a string, \<^verbatim>\<open>path.lower()\<close> raises AttributeError.
\<close>

definition scrub_check :: "'a builtins \<Rightarrow> PrivacyConfig \<Rightarrow> 'a key \<Rightarrow> py_error + bool" where
  "scrub_check py cfg path =
     (if \<not> truthy_key py path then Inr False
      else case path of
             StrKey s \<Rightarrow> Inr (should_scrub_path cfg s)
           | ObjKey a \<Rightarrow> Inl Attribute_error)"

text \<open>
  \<^verbatim>\<open>_redact_value\<close>. The scrub test comes first at every call; the dict and list
  comprehensions are the two auxiliary functions, the list one carrying the index of
  \<^verbatim>\<open>enumerate\<close>. An exception anywhere ends the whole walk.
\<close>

fun redact_value ::
    "'a builtins \<Rightarrow> PrivacyConfig \<Rightarrow> 'a json \<Rightarrow> 'a key \<Rightarrow> py_error + 'a json"
  and redact_entries ::
    "'a builtins \<Rightarrow> PrivacyConfig \<Rightarrow> ('a key \<times> 'a json) list \<Rightarrow> 'a key \<Rightarrow>
     py_error + ('a key \<times> 'a json) list"
  and redact_items ::
    "'a builtins \<Rightarrow> PrivacyConfig \<Rightarrow> 'a json list \<Rightarrow> nat \<Rightarrow> 'a key \<Rightarrow> py_error + 'a json list"
where
  "redact_value py cfg (Dict kvs) path =
     (case scrub_check py cfg path of
        Inl e \<Rightarrow> Inl e
      | Inr scrub \<Rightarrow>
          if scrub then Inr (Str (redacted_text cfg))
          else (case redact_entries py cfg kvs path of
                  Inl e \<Rightarrow> Inl e
                | Inr kvs' \<Rightarrow> Inr (Dict kvs')))"
| "redact_value py cfg (List xs) path =
     (case scrub_check py cfg path of
        Inl e \<Rightarrow> Inl e
      | Inr scrub \<Rightarrow>
          if scrub then Inr (Str (redacted_text cfg))
          else (case redact_items py cfg xs 0 path of
                  Inl e \<Rightarrow> Inl e
                | Inr xs' \<Rightarrow> Inr (List xs')))"
| "redact_value py cfg (Str s) path =
     (case scrub_check py cfg path of
        Inl e \<Rightarrow> Inl e
      | Inr scrub \<Rightarrow>
          if scrub then Inr (Str (redacted_text cfg))
          else (case redact_string py cfg s of
                  Inl e \<Rightarrow> Inl e
                | Inr s' \<Rightarrow> Inr (Str s')))"
| "redact_value py cfg (Scalar a) path =
     (case scrub_check py cfg path of
        Inl e \<Rightarrow> Inl e
      | Inr scrub \<Rightarrow> if scrub then Inr (Str (redacted_text cfg)) else Inr (Scalar a))"
| "redact_entries py cfg [] path = Inr []"
| "redact_entries py cfg ((k, v) # kvs) path =
     (case key_path py path k of
        Inl e \<Rightarrow> Inl e
      | Inr p \<Rightarrow>
          (case redact_value py cfg v p of
             Inl e \<Rightarrow> Inl e
           | Inr v' \<Rightarrow>
               (case redact_entries py cfg kvs path of
                  Inl e \<Rightarrow> Inl e
                | Inr kvs' \<Rightarrow> Inr ((k, v') # kvs'))))"
| "redact_items py cfg [] i path = Inr []"
| "redact_items py cfg (x # xs) i path =
     (case item_path py path i of
        Inl e \<Rightarrow> Inl e
      | Inr p \<Rightarrow>
          (case redact_value py cfg x p of
             Inl e \<Rightarrow> Inl e
           | Inr x' \<Rightarrow>
               (case redact_items py cfg xs (Suc i) path of
                  Inl e \<Rightarrow> Inl e
                | Inr xs' \<Rightarrow> Inr (x' # xs'))))"

text \<open>\<^verbatim>\<open>redact_payload\<close>: the walk starts at the root with the empty path.\<close>

definition redact_payload :: "'a builtins \<Rightarrow> PrivacyConfig \<Rightarrow> 'a json \<Rightarrow> py_error + 'a json" where
  "redact_payload py cfg payload =
     (if \<not> enabled cfg then Inr payload else redact_value py cfg payload (StrKey []))"

text \<open>
  What the round-trip property speaks of: the string leaves of a payload, and the key
  paths that the walk above forms for the nodes below the root (each one the path, or the
  exception its formatting raises).
\<close>

fun string_leaves :: "'a json \<Rightarrow> string list"
  and entries_leaves :: "('a key \<times> 'a json) list \<Rightarrow> string list"
  and items_leaves :: "'a json list \<Rightarrow> string list"
where
  "string_leaves (Dict kvs) = entries_leaves kvs"
| "string_leaves (List xs) = items_leaves xs"
| "string_leaves (Str s) = [s]"
| "string_leaves (Scalar a) = []"
| "entries_leaves [] = []"
| "entries_leaves ((k, v) # kvs) = string_leaves v @ entries_leaves kvs"
| "items_leaves [] = []"
| "items_leaves (x # xs) = string_leaves x @ items_leaves xs"

fun key_paths :: "'a builtins \<Rightarrow> 'a json \<Rightarrow> 'a key \<Rightarrow> (py_error + 'a key) list"
  and entries_paths ::
    "'a builtins \<Rightarrow> ('a key \<times> 'a json) list \<Rightarrow> 'a key \<Rightarrow> (py_error + 'a key) list"
  and items_paths ::
    "'a builtins \<Rightarrow> 'a json list \<Rightarrow> nat \<Rightarrow> 'a key \<Rightarrow> (py_error + 'a key) list"
where
  "key_paths py (Dict kvs) path = entries_paths py kvs path"
| "key_paths py (List xs) path = items_paths py xs 0 path"
| "key_paths py (Str s) path = []"
| "key_paths py (Scalar a) path = []"
| "entries_paths py [] path = []"
| "entries_paths py ((k, v) # kvs) path =
     (case key_path py path k of
        Inl e \<Rightarrow> [Inl e]
      | Inr p \<Rightarrow> Inr p # key_paths py v p) @ entries_paths py kvs path"
| "items_paths py [] i path = []"
| "items_paths py (x # xs) i path =
     (case item_path py path i of
        Inl e \<Rightarrow> [Inl e]
      | Inr p \<Rightarrow> Inr p # key_paths py x p) @ items_paths py xs (Suc i) path"

text \<open>
  A node of a payload is addressed by its position: the list of the indices taken from
  the root, into the items of a dict or of a list. \<open>subtree\<close> is the value at a position,
  \<open>node_path\<close> the path with which the walk above reaches it.
\<close>

fun subtree :: "'a json \<Rightarrow> nat list \<Rightarrow> 'a json option" where
  "subtree v [] = Some v"
| "subtree (Dict kvs) (i # pos) = (if i < length kvs then subtree (snd (kvs ! i)) pos else None)"
| "subtree (List xs) (i # pos) = (if i < length xs then subtree (xs ! i) pos else None)"
| "subtree v (i # pos) = None"

fun node_path :: "'a builtins \<Rightarrow> 'a json \<Rightarrow> 'a key \<Rightarrow> nat list \<Rightarrow> 'a key option" where
  "node_path py v path [] = Some path"
| "node_path py (Dict kvs) path (i # pos) =
     (if i < length kvs
      then case key_path py path (fst (kvs ! i)) of
             Inl e \<Rightarrow> None
           | Inr p \<Rightarrow> node_path py (snd (kvs ! i)) p pos
      else None)"
| "node_path py (List xs) path (i # pos) =
     (if i < length xs
      then case item_path py path i of
             Inl e \<Rightarrow> None
           | Inr p \<Rightarrow> node_path py (xs ! i) p pos
      else None)"
| "node_path py v path (i # pos) = None"

section \<open>Python values of the span payloads\<close>

text \<open>
  The scalars that occur in the span model: None, booleans and integers. (Floats are left
  out of span data; timestamps are kept apart, as reals.)
\<close>

datatype scalar = SNone | SBool bool | SInt int

type_synonym pyval = "scalar json"

text \<open>
  A Python dict with assignment \<^verbatim>\<open>d[k] = v\<close>: an existing key keeps its place, a new key
  goes to the end. \<^verbatim>\<open>d.get(k)\<close> is \<open>map_of\<close>.
\<close>

fun dict_set :: "'k \<Rightarrow> 'v \<Rightarrow> ('k \<times> 'v) list \<Rightarrow> ('k \<times> 'v) list" where
  "dict_set k v [] = [(k, v)]"
| "dict_set k v ((k', v') # kvs) =
     (if k' = k then (k, v) # kvs else (k', v') # dict_set k v kvs)"

text \<open>An exception object, by \<^verbatim>\<open>type(e).__name__\<close> and \<^verbatim>\<open>str(e)\<close>.\<close>

record exn =
  exn_type :: string
  exn_message :: string

section \<open>decorators.py: identifiers\<close>

text \<open>
  \<^verbatim>\<open>uuid.uuid4()\<close> draws 16 random bytes (here the 128-bit word \<open>r\<close>) and stamps the
  variant and version bits on them; \<^verbatim>\<open>.hex\<close> prints the result as 32 lower-case hex
  digits, most significant first.
\<close>

definition uuid4 :: "128 word \<Rightarrow> 128 word" where
  "uuid4 r =
     (((r AND NOT (push_bit 48 0xc000)) OR push_bit 48 0x8000)
        AND NOT (push_bit 64 0xf000)) OR push_bit 76 4"

definition hexdigit :: "nat \<Rightarrow> char" where
  "hexdigit n = ''0123456789abcdef'' ! (n mod 16)"

definition hex :: "128 word \<Rightarrow> string" where
  "hex w = map (\<lambda>i. hexdigit (unat (drop_bit (4 * (31 - i)) w AND 15))) [0..<32]"

text \<open>\<^verbatim>\<open>ActiveSpan._generate_id\<close>: \<^verbatim>\<open>uuid.uuid4().hex[:16]\<close>.\<close>

definition generate_id :: "128 word \<Rightarrow> string" where
  "generate_id r = take 16 (hex (uuid4 r))"

section \<open>decorators.py: ActiveSpan\<close>

record event =
  name :: string
  timestamp :: real
  attributes :: "(string \<times> pyval) list"

text \<open>
  The fields of \<^verbatim>\<open>ActiveSpan\<close>. \<^verbatim>\<open>input_data\<close> and \<^verbatim>\<open>output_data\<close> hold any value,
  None (\<open>Scalar SNone\<close>) when unset; \<open>ended\<close> is the flag \<^verbatim>\<open>_ended\<close>. Times are the floats
  of \<^verbatim>\<open>time.time()\<close>, taken as reals.
\<close>

record ActiveSpan =
  name :: string
  kind :: string
  span_id :: string
  parent_id :: "string option"
  trace_id :: string
  start_time :: real
  end_time :: "real option"
  attributes :: "(string \<times> pyval) list"
  events :: "event list"
  input_data :: pyval
  output_data :: pyval
  error :: "exn option"
  token_usage :: "(string \<times> int) list"
  ended :: bool

text \<open>
  \<^verbatim>\<open>ActiveSpan.__init__\<close>. \<^verbatim>\<open>span_id or self._generate_id()\<close> takes the generated id when
  the argument is None or empty. \<open>now\<close> is \<^verbatim>\<open>time.time()\<close>; \<open>r1\<close> and \<open>r2\<close> are the
  random draws for the two ids.
\<close>

definition or_else :: "string option \<Rightarrow> string \<Rightarrow> string" where
  "or_else a b = (case a of Some s \<Rightarrow> (if s \<noteq> [] then s else b) | None \<Rightarrow> b)"

definition ActiveSpan_init ::
  "string \<Rightarrow> string \<Rightarrow> string option \<Rightarrow> string option \<Rightarrow> string option \<Rightarrow>
   real \<Rightarrow> 128 word \<Rightarrow> 128 word \<Rightarrow> ActiveSpan" where
  "ActiveSpan_init nm knd sid pid tid now r1 r2 =
     \<lparr> ActiveSpan.name = nm, kind = knd,
       span_id = or_else sid (generate_id r1),
       parent_id = pid,
       trace_id = or_else tid (generate_id r2),
       start_time = now, end_time = None,
       ActiveSpan.attributes = [], events = [],
       input_data = Scalar SNone, output_data = Scalar SNone,
       error = None, token_usage = [], ended = False \<rparr>"

definition set_input :: "pyval \<Rightarrow> ActiveSpan \<Rightarrow> ActiveSpan" where
  "set_input data sp = sp\<lparr>input_data := data\<rparr>"

definition set_output :: "pyval \<Rightarrow> ActiveSpan \<Rightarrow> ActiveSpan" where
  "set_output data sp = sp\<lparr>output_data := data\<rparr>"

definition set_attribute :: "string \<Rightarrow> pyval \<Rightarrow> ActiveSpan \<Rightarrow> ActiveSpan" where
  "set_attribute key v sp =
     sp\<lparr>ActiveSpan.attributes := dict_set key v (ActiveSpan.attributes sp)\<rparr>"

text \<open>\<^verbatim>\<open>set_attributes\<close> is \<^verbatim>\<open>dict.update\<close>: one assignment per item, in order.\<close>

definition set_attributes :: "(string \<times> pyval) list \<Rightarrow> ActiveSpan \<Rightarrow> ActiveSpan" where
  "set_attributes attrs sp =
     sp\<lparr>ActiveSpan.attributes := foldl (\<lambda>d (k, v). dict_set k v d) (ActiveSpan.attributes sp) attrs\<rparr>"

text \<open>\<^verbatim>\<open>add_event\<close>; \<open>now\<close> is \<^verbatim>\<open>time.time()\<close>, and \<^verbatim>\<open>attributes or {}\<close> is the empty dict
  for None.\<close>

definition add_event ::
  "string \<Rightarrow> (string \<times> pyval) list option \<Rightarrow> real \<Rightarrow> ActiveSpan \<Rightarrow> ActiveSpan" where
  "add_event nm attrs now sp =
     sp\<lparr>events :=
          events sp @
            [\<lparr> event.name = nm, timestamp = now,
               event.attributes = (case attrs of Some a \<Rightarrow> a | None \<Rightarrow> []) \<rparr>]\<rparr>"

definition set_model :: "string \<Rightarrow> string option \<Rightarrow> ActiveSpan \<Rightarrow> ActiveSpan" where
  "set_model model provider sp =
     (let sp1 = sp\<lparr>ActiveSpan.attributes :=
                     dict_set ''gen_ai.request.model'' (Str model) (ActiveSpan.attributes sp)\<rparr>
      in case provider of
           Some p \<Rightarrow>
             if p \<noteq> []
             then sp1\<lparr>ActiveSpan.attributes :=
                        dict_set ''gen_ai.system'' (Str p) (ActiveSpan.attributes sp1)\<rparr>
             else sp1
         | None \<Rightarrow> sp1)"

text \<open>\<^verbatim>\<open>set_error\<close>; \<open>stack\<close> is the text of \<^verbatim>\<open>traceback.format_exc()\<close>.\<close>

definition set_error :: "exn \<Rightarrow> string \<Rightarrow> ActiveSpan \<Rightarrow> ActiveSpan" where
  "set_error e stack sp =
     sp\<lparr>error := Some e,
          ActiveSpan.attributes :=
            dict_set ''error.stack'' (Str stack)
              (dict_set ''error.message'' (Str (exn_message e))
                (dict_set ''error.type'' (Str (exn_type e)) (ActiveSpan.attributes sp)))\<rparr>"

definition set_token_usage ::
  "int option \<Rightarrow> int option \<Rightarrow> int option \<Rightarrow> ActiveSpan \<Rightarrow> ActiveSpan" where
  "set_token_usage prompt_tokens completion_tokens total_tokens sp =
     (let s1 = (case prompt_tokens of None \<Rightarrow> sp
                | Some n \<Rightarrow> sp\<lparr>token_usage := dict_set ''prompt'' n (token_usage sp),
                                ActiveSpan.attributes :=
                                  dict_set ''gen_ai.usage.prompt_tokens'' (Scalar (SInt n))
                                    (ActiveSpan.attributes sp)\<rparr>);
          s2 = (case completion_tokens of None \<Rightarrow> s1
                | Some n \<Rightarrow> s1\<lparr>token_usage := dict_set ''completion'' n (token_usage s1),
                              ActiveSpan.attributes :=
                                dict_set ''gen_ai.usage.completion_tokens'' (Scalar (SInt n))
                                  (ActiveSpan.attributes s1)\<rparr>)
      in (case total_tokens of None \<Rightarrow> s2
          | Some n \<Rightarrow> s2\<lparr>token_usage := dict_set ''total'' n (token_usage s2),
                        ActiveSpan.attributes :=
                          dict_set ''gen_ai.usage.total_tokens'' (Scalar (SInt n))
                            (ActiveSpan.attributes s2)\<rparr>))"

section \<open>sdk.py: configuration and global state\<close>

text \<open>The dataclass \<^verbatim>\<open>SDKConfig\<close> (\<^verbatim>\<open>flush_timeout\<close> and \<^verbatim>\<open>max_payload_size\<close> keep
  their defaults and are read by nothing below; they are left out).\<close>

record SDKConfig =
  api_key :: "string option"
  base_url :: string
  tenant_id :: int
  project_id :: int
  agent_id :: int
  environment :: string
  service_name :: string
  enabled :: bool
  debug :: bool
  strict :: bool
  batch_size :: int
  flush_interval :: real
  max_queue_size :: int
  timeout :: real
  capture_input :: bool
  capture_output :: bool
  redact_patterns :: "string list"

text \<open>Modelled from the spec: \<^verbatim>\<open>agentreplay.models\<close> is not among the sources. \<open>SpanType\<close> is
  the span kind enumeration of the data model; \<^verbatim>\<open>_send\<close> names its members \<open>ROOT\<close> and
  \<open>TOOL_CALL\<close>. \<open>AgentFlowEdge\<close> has the fields that \<^verbatim>\<open>_send\<close> passes to its constructor.
\<close>

datatype SpanType =
    ROOT | PLANNING | REASONING | TOOL_CALL | TOOL_RESPONSE | SYNTHESIS | RESPONSE | ERROR
  | RETRIEVAL | EMBEDDING | HTTP_CALL | DATABASE | FUNCTION | RERANKING | PARSING
  | GENERATION | CUSTOM

text \<open>A value stored in the payload dict of an edge: span data, or the list of events.\<close>

datatype payload_value = Value pyval | Events "event list"

record AgentFlowEdge =
  tenant_id :: int
  project_id :: int
  agent_id :: int
  session_id :: int
  span_type :: SpanType
  timestamp_us :: int
  duration_us :: int
  token_count :: int
  payload :: "(string \<times> payload_value) list"

text \<open>Modelled from the spec: \<^verbatim>\<open>agentreplay.batching\<close> and \<^verbatim>\<open>agentreplay.client\<close> are not
  among the sources. The batching client is the state that \<^verbatim>\<open>sdk.py\<close> reads and sets: the
  buffer, the dropped-span counter, the retry queue of batches, the last delivery error of
  the error-handling design, and the three constructor arguments.
\<close>

record BatchingClient =
  buffer :: "AgentFlowEdge list"
  dropped_count :: int
  retry_queue :: "AgentFlowEdge list list"
  last_error :: "string option"
  batch_size :: int
  flush_interval :: real
  max_buffer_size :: int

record AgentreplayClient =
  url :: string
  tenant_id :: int
  project_id :: int
  agent_id :: int
  timeout :: real

text \<open>The module globals \<^verbatim>\<open>_config\<close>, \<^verbatim>\<open>_client\<close>, \<^verbatim>\<open>_batching_client\<close>, \<^verbatim>\<open>_initialized\<close>.\<close>

record sdk_state =
  config :: "SDKConfig option"
  client :: "AgentreplayClient option"
  batching_client :: "BatchingClient option"
  initialized :: bool

text \<open>
  What the code calls outside the sources, taken as parameters:
  \<^item> \<open>json_dumps\<close>: \<^verbatim>\<open>json.dumps(data, default=str)\<close>, None where it raises (a key that is
    not a string, number, bool or None; a circular reference; an integer too long to
    print; data nested too deeply);
  \<^item> \<open>py_str\<close>: \<^verbatim>\<open>str(data)\<close>, None where it raises (again an integer too long to print,
    or data nested too deeply);
  \<^item> \<open>int16\<close>: \<^verbatim>\<open>int(s, 16)\<close>, None where it raises ValueError;
  \<^item> \<open>parse_int\<close>, \<open>parse_float\<close>: \<^verbatim>\<open>int(s)\<close> and \<^verbatim>\<open>float(s)\<close>, None where they raise
    ValueError;
  \<^item> \<open>client_insert\<close>: \<^verbatim>\<open>BatchingAgentreplayClient.insert\<close>, as the change it makes to the
    batching client (an exception in it is caught by \<^verbatim>\<open>_send\<close>).
\<close>

record externals =
  json_dumps :: "pyval \<Rightarrow> string option"
  py_str :: "pyval \<Rightarrow> string option"
  int16 :: "string \<Rightarrow> int option"
  parse_int :: "string \<Rightarrow> int option"
  parse_float :: "string \<Rightarrow> real option"
  client_insert :: "AgentFlowEdge \<Rightarrow> BatchingClient \<Rightarrow> BatchingClient"

section \<open>decorators.py: ending and sending a span\<close>

definition SpanKind_CHAIN :: string where "SpanKind_CHAIN = ''chain''"
definition SpanKind_LLM :: string where "SpanKind_LLM = ''llm''"
definition SpanKind_TOOL :: string where "SpanKind_TOOL = ''tool''"
definition SpanKind_RETRIEVER :: string where "SpanKind_RETRIEVER = ''retriever''"
definition SpanKind_EMBEDDING :: string where "SpanKind_EMBEDDING = ''embedding''"

definition span_type_map :: "(string \<times> SpanType) list" where
  "span_type_map =
     [(SpanKind_CHAIN, ROOT), (SpanKind_LLM, TOOL_CALL), (SpanKind_TOOL, TOOL_CALL),
      (SpanKind_RETRIEVER, TOOL_CALL), (SpanKind_EMBEDDING, TOOL_CALL)]"

text \<open>\<^verbatim>\<open>int(x)\<close> of a float: truncation towards zero.\<close>

definition py_int :: "real \<Rightarrow> int" where
  "py_int x = (if 0 \<le> x then \<lfloor>x\<rfloor> else \<lceil>x\<rceil>)"

text \<open>
  \<^verbatim>\<open>_safe_serialize\<close>. Data whose JSON text is longer than \<open>max_size\<close> is replaced by a
  preview of the text; other data that \<^verbatim>\<open>json.dumps\<close> accepts is returned as it is. When
  \<^verbatim>\<open>json.dumps\<close> raises, the \<^verbatim>\<open>except\<close> branch returns \<^verbatim>\<open>str(data)[:max_size]\<close>; when
  \<^verbatim>\<open>str\<close> raises too, the exception leaves \<^verbatim>\<open>_safe_serialize\<close>: the result is None.
\<close>

definition safe_serialize :: "externals \<Rightarrow> pyval \<Rightarrow> nat \<Rightarrow> pyval option" where
  "safe_serialize ext data max_size =
     (case json_dumps ext data of
        Some serialized \<Rightarrow>
          Some (if length serialized > max_size
                then Dict [(StrKey ''__truncated'', Scalar (SBool True)),
                           (StrKey ''__preview'', Str (take 1000 serialized))]
                else data)
      | None \<Rightarrow>
          (case py_str ext data of
             Some t \<Rightarrow> Some (Str (take max_size t))
           | None \<Rightarrow> None))"

text \<open>
  The payload dict that \<^verbatim>\<open>_send\<close> builds, key by key in the order of the source; None
  when \<^verbatim>\<open>_safe_serialize\<close> raises. The attributes of a span have string keys.
\<close>

definition build_payload ::
  "externals \<Rightarrow> SDKConfig \<Rightarrow> ActiveSpan \<Rightarrow> (string \<times> payload_value) list option" where
  "build_payload ext cfg sp =
     (case (if input_data sp \<noteq> Scalar SNone \<and> capture_input cfg
            then map_option (\<lambda>v. dict_set ''input'' (Value v) [])
                   (safe_serialize ext (input_data sp) 10000)
            else Some [])
      of None \<Rightarrow> None
       | Some payload1 \<Rightarrow>
      (case (if output_data sp \<noteq> Scalar SNone \<and> capture_output cfg
             then map_option (\<lambda>v. dict_set ''output'' (Value v) payload1)
                    (safe_serialize ext (output_data sp) 10000)
             else Some payload1)
       of None \<Rightarrow> None
        | Some payload2 \<Rightarrow>
            let payload3 =
                  (if ActiveSpan.attributes sp \<noteq> []
                   then dict_set ''attributes''
                          (Value (Dict (map (\<lambda>(k, v). (StrKey k, v)) (ActiveSpan.attributes sp))))
                          payload2
                   else payload2);
                payload4 =
                  (if events sp \<noteq> [] then dict_set ''events'' (Events (events sp)) payload3
                   else payload3)
            in Some (case error sp of
                       Some e \<Rightarrow>
                         dict_set ''error''
                           (Value (Dict [(StrKey ''type'', Str (exn_type e)),
                                         (StrKey ''message'', Str (exn_message e))]))
                           payload4
                     | None \<Rightarrow> payload4)))"

text \<open>
  \<^verbatim>\<open>_send\<close>, up to the call of \<^verbatim>\<open>client.insert\<close>: the edge that is handed over, or None
  when \<^verbatim>\<open>_send\<close> returns early or an exception is caught (a missing config, an exception
  of \<^verbatim>\<open>_safe_serialize\<close>, a trace id that \<^verbatim>\<open>int(..., 16)\<close> rejects).
\<close>

definition send_edge :: "externals \<Rightarrow> ActiveSpan \<Rightarrow> sdk_state \<Rightarrow> AgentFlowEdge option" where
  "send_edge ext sp sdk =
     (if \<not> initialized sdk then None
      else case config sdk of
        None \<Rightarrow> None
      | Some cfg \<Rightarrow>
          if \<not> SDKConfig.enabled cfg then None
          else
            let stype = (case map_of span_type_map (kind sp) of Some t \<Rightarrow> t | None \<Rightarrow> ROOT);
                duration =
                  (case end_time sp of
                     Some t \<Rightarrow> if t \<noteq> 0 then py_int ((t - start_time sp) * 1000000) else 0
                   | None \<Rightarrow> 0)
            in (case build_payload ext cfg sp of
                  None \<Rightarrow> None
                | Some payload5 \<Rightarrow>
               (case (if trace_id sp \<noteq> [] then int16 ext (take 8 (trace_id sp)) else Some 0) of
                  None \<Rightarrow> None
                | Some session \<Rightarrow>
                    Some \<lparr> AgentFlowEdge.tenant_id = SDKConfig.tenant_id cfg,
                           AgentFlowEdge.project_id = SDKConfig.project_id cfg,
                           AgentFlowEdge.agent_id = SDKConfig.agent_id cfg,
                           session_id = session,
                           span_type = stype,
                           timestamp_us = py_int (start_time sp * 1000000),
                           duration_us = duration,
                           token_count =
                             (case map_of (token_usage sp) ''total'' of Some n \<Rightarrow> n | None \<Rightarrow> 0),
                           payload = payload5 \<rparr>)))"

text \<open>\<^verbatim>\<open>_send\<close>: the edge, if any, goes to \<^verbatim>\<open>insert\<close> of the batching client (with no
  batching client the call fails and the exception is caught).\<close>

definition send :: "externals \<Rightarrow> ActiveSpan \<Rightarrow> sdk_state \<Rightarrow> sdk_state" where
  "send ext sp sdk =
     (case send_edge ext sp sdk of
        None \<Rightarrow> sdk
      | Some edge \<Rightarrow>
          (case batching_client sdk of
             None \<Rightarrow> sdk
           | Some c \<Rightarrow> sdk\<lparr>batching_client := Some (client_insert ext edge c)\<rparr>))"

text \<open>\<^verbatim>\<open>ActiveSpan.end\<close>; \<open>now\<close> is \<^verbatim>\<open>time.time()\<close>. The span object and the SDK globals
  are both state, returned updated.\<close>

definition end_span ::
  "externals \<Rightarrow> real \<Rightarrow> ActiveSpan \<times> sdk_state \<Rightarrow> ActiveSpan \<times> sdk_state" where
  "end_span ext now st =
     (let sp = fst st; sdk = snd st in
      if ended sp then (sp, sdk)
      else
        let sp' = sp\<lparr>ended := True, end_time := Some now\<rparr>
        in (sp', send ext sp' sdk))"

text \<open>\<^verbatim>\<open>ActiveSpan.__exit__\<close>: an exception leaving the \<^verbatim>\<open>with\<close> block is recorded, then the
  span is ended. (The reset of the current-span context variable is not modelled.)\<close>

definition exit_span ::
  "externals \<Rightarrow> (exn \<times> string) option \<Rightarrow> real \<Rightarrow> ActiveSpan \<times> sdk_state \<Rightarrow> ActiveSpan \<times> sdk_state"
  where
  "exit_span ext exc_val now st =
     (let sp = (case exc_val of Some (e, stack) \<Rightarrow> set_error e stack (fst st) | None \<Rightarrow> fst st)
      in end_span ext now (sp, snd st))"

section \<open>sdk.py: environment helpers and init\<close>

type_synonym environ = "string \<rightharpoonup> string"

text \<open>\<^verbatim>\<open>_get_env(key)\<close> and \<^verbatim>\<open>_get_env(key, default)\<close> with a string default.\<close>

definition get_env :: "environ \<Rightarrow> string \<Rightarrow> string option" where
  "get_env env key = env key"

definition get_env_default :: "environ \<Rightarrow> string \<Rightarrow> string \<Rightarrow> string" where
  "get_env_default env key d = (case env key of Some v \<Rightarrow> v | None \<Rightarrow> d)"

definition get_env_bool :: "environ \<Rightarrow> string \<Rightarrow> bool \<Rightarrow> bool" where
  "get_env_bool env key d =
     (let val = lower (case env key of Some v \<Rightarrow> v | None \<Rightarrow> []) in
      if val \<in> set [''1'', ''true'', ''yes'', ''on''] then True
      else if val \<in> set [''0'', ''false'', ''no'', ''off''] then False
      else d)"

definition get_env_int :: "(string \<Rightarrow> int option) \<Rightarrow> environ \<Rightarrow> string \<Rightarrow> int \<Rightarrow> int" where
  "get_env_int parse env key d =
     (case env key of
        None \<Rightarrow> d
      | Some v \<Rightarrow> (case parse v of Some n \<Rightarrow> n | None \<Rightarrow> d))"

definition get_env_float :: "(string \<Rightarrow> real option) \<Rightarrow> environ \<Rightarrow> string \<Rightarrow> real \<Rightarrow> real" where
  "get_env_float parse env key d =
     (case env key of
        None \<Rightarrow> d
      | Some v \<Rightarrow> (case parse v of Some x \<Rightarrow> x | None \<Rightarrow> d))"

text \<open>\<^verbatim>\<open>a or b\<close> on optional strings: \<open>a\<close> unless it is None or empty.\<close>

definition py_or :: "string option \<Rightarrow> string option \<Rightarrow> string option" where
  "py_or a b = (case a of Some s \<Rightarrow> (if s \<noteq> [] then a else b) | None \<Rightarrow> b)"

text \<open>Truth value of an optional string (\<^verbatim>\<open>not _config.api_key\<close> is its negation).\<close>

definition truthy :: "string option \<Rightarrow> bool" where
  "truthy a = (case a of Some s \<Rightarrow> s \<noteq> [] | None \<Rightarrow> False)"

definition rstrip_slash :: "string \<Rightarrow> string" where
  "rstrip_slash s = rev (dropWhile (\<lambda>c. c = CHR ''/'') (rev s))"

text \<open>The keyword arguments of \<^verbatim>\<open>init\<close>, each None by default.\<close>

record init_args =
  arg_api_key :: "string option"
  arg_base_url :: "string option"
  arg_tenant_id :: "int option"
  arg_project_id :: "int option"
  arg_agent_id :: "int option"
  arg_environment :: "string option"
  arg_service_name :: "string option"
  arg_enabled :: "bool option"
  arg_debug :: "bool option"
  arg_strict :: "bool option"
  arg_batch_size :: "int option"
  arg_flush_interval :: "real option"
  arg_max_queue_size :: "int option"
  arg_timeout :: "real option"
  arg_capture_input :: "bool option"
  arg_capture_output :: "bool option"
  arg_redact_patterns :: "string list option"

definition no_args :: init_args where
  "no_args =
     \<lparr> arg_api_key = None, arg_base_url = None, arg_tenant_id = None, arg_project_id = None,
       arg_agent_id = None, arg_environment = None, arg_service_name = None,
       arg_enabled = None, arg_debug = None, arg_strict = None, arg_batch_size = None,
       arg_flush_interval = None, arg_max_queue_size = None, arg_timeout = None,
       arg_capture_input = None, arg_capture_output = None, arg_redact_patterns = None \<rparr>"

text \<open>The configuration that \<^verbatim>\<open>init\<close> builds from the arguments and the environment.\<close>

definition build_config :: "externals \<Rightarrow> environ \<Rightarrow> init_args \<Rightarrow> SDKConfig" where
  "build_config ext env a =
     \<lparr> api_key = py_or (arg_api_key a) (get_env env ''AGENTREPLAY_API_KEY''),
       base_url =
         rstrip_slash
           (or_else (arg_base_url a) (get_env_default env ''AGENTREPLAY_URL'' ''http://localhost:8080'')),
       SDKConfig.tenant_id =
         (case arg_tenant_id a of Some n \<Rightarrow> n
          | None \<Rightarrow> get_env_int (parse_int ext) env ''AGENTREPLAY_TENANT_ID'' 1),
       SDKConfig.project_id =
         (case arg_project_id a of Some n \<Rightarrow> n
          | None \<Rightarrow> get_env_int (parse_int ext) env ''AGENTREPLAY_PROJECT_ID'' 0),
       SDKConfig.agent_id =
         (case arg_agent_id a of Some n \<Rightarrow> n
          | None \<Rightarrow> get_env_int (parse_int ext) env ''AGENTREPLAY_AGENT_ID'' 1),
       environment =
         or_else (arg_environment a) (get_env_default env ''AGENTREPLAY_ENVIRONMENT'' ''development''),
       service_name =
         or_else (arg_service_name a)
           (get_env_default env ''AGENTREPLAY_SERVICE_NAME'' ''agentreplay-app''),
       SDKConfig.enabled =
         (case arg_enabled a of Some b \<Rightarrow> b
          | None \<Rightarrow> get_env_bool env ''AGENTREPLAY_ENABLED'' True),
       debug =
         (case arg_debug a of Some b \<Rightarrow> b
          | None \<Rightarrow> get_env_bool env ''AGENTREPLAY_DEBUG'' False),
       strict =
         (case arg_strict a of Some b \<Rightarrow> b
          | None \<Rightarrow> get_env_bool env ''AGENTREPLAY_STRICT'' False),
       SDKConfig.batch_size =
         (case arg_batch_size a of Some n \<Rightarrow> n
          | None \<Rightarrow> get_env_int (parse_int ext) env ''AGENTREPLAY_BATCH_SIZE'' 100),
       SDKConfig.flush_interval =
         (case arg_flush_interval a of Some x \<Rightarrow> x
          | None \<Rightarrow> get_env_float (parse_float ext) env ''AGENTREPLAY_FLUSH_INTERVAL'' 5),
       max_queue_size =
         (case arg_max_queue_size a of Some n \<Rightarrow> n
          | None \<Rightarrow> get_env_int (parse_int ext) env ''AGENTREPLAY_MAX_QUEUE_SIZE'' 10000),
       SDKConfig.timeout =
         (case arg_timeout a of Some x \<Rightarrow> x
          | None \<Rightarrow> get_env_float (parse_float ext) env ''AGENTREPLAY_TIMEOUT'' 30),
       capture_input =
         (case arg_capture_input a of Some b \<Rightarrow> b
          | None \<Rightarrow> get_env_bool env ''AGENTREPLAY_CAPTURE_INPUT'' True),
       capture_output =
         (case arg_capture_output a of Some b \<Rightarrow> b
          | None \<Rightarrow> get_env_bool env ''AGENTREPLAY_CAPTURE_OUTPUT'' True),
       redact_patterns = (case arg_redact_patterns a of Some ps \<Rightarrow> ps | None \<Rightarrow> []) \<rparr>"

definition missing_api_key :: exn where
  "missing_api_key =
     \<lparr> exn_type = ''ValueError'',
       exn_message =
         ''Agentreplay: API key required in strict mode. '' @
         ''Set AGENTREPLAY_API_KEY or pass api_key parameter.'' \<rparr>"

text \<open>The ValueError of \<^verbatim>\<open>signal.signal\<close> when it is called outside the main thread.\<close>

definition not_main_thread :: exn where
  "not_main_thread =
     \<lparr> exn_type = ''ValueError'',
       exn_message = ''signal only works in main thread of the main interpreter'' \<rparr>"

definition no_api_key_warning :: string where
  "no_api_key_warning =
     ''[Agentreplay] No API key configured. '' @
     ''Set AGENTREPLAY_API_KEY or pass api_key parameter.''"

text \<open>
  \<^verbatim>\<open>init\<close>. The result is what the call returns or raises, the warnings it logs, and the
  globals afterwards (\<^verbatim>\<open>_config\<close> is assigned before the strict check, so it stays set when
  the check raises). \<open>main_thread\<close> tells whether the caller runs in the main thread: the
  two \<^verbatim>\<open>signal.signal\<close> registrations raise ValueError elsewhere. The constructors of the
  two clients, which are not among the sources, are taken not to raise. Debug logging is
  not modelled.
\<close>

definition init ::
  "externals \<Rightarrow> environ \<Rightarrow> bool \<Rightarrow> init_args \<Rightarrow> sdk_state \<Rightarrow>
   (exn + SDKConfig option) \<times> string list \<times> sdk_state" where
  "init ext env main_thread a sdk =
     (if initialized sdk then (Inr (config sdk), [], sdk)
      else
        let cfg = build_config ext env a;
            sdk1 = sdk\<lparr>config := Some cfg\<rparr>
        in
          if strict cfg \<and> \<not> truthy (api_key cfg) then (Inl missing_api_key, [], sdk1)
          else
            let warnings =
                  (if \<not> truthy (api_key cfg) \<and> \<not> strict cfg then [no_api_key_warning] else [])
            in
              if SDKConfig.enabled cfg then
                let sdk2 =
                      sdk1\<lparr>client :=
                             Some \<lparr> url = base_url cfg,
                                    AgentreplayClient.tenant_id = SDKConfig.tenant_id cfg,
                                    AgentreplayClient.project_id = SDKConfig.project_id cfg,
                                    AgentreplayClient.agent_id = SDKConfig.agent_id cfg,
                                    AgentreplayClient.timeout = SDKConfig.timeout cfg \<rparr>,
                           batching_client :=
                             Some \<lparr> buffer = [], dropped_count = 0, retry_queue = [],
                                    last_error = None,
                                    BatchingClient.batch_size = SDKConfig.batch_size cfg,
                                    BatchingClient.flush_interval = SDKConfig.flush_interval cfg,
                                    max_buffer_size = max_queue_size cfg \<rparr>\<rparr>
                in
                  if main_thread then (Inr (Some cfg), warnings, sdk2\<lparr>initialized := True\<rparr>)
                  else (Inl not_main_thread, warnings, sdk2)
              else (Inr (Some cfg), warnings, sdk1\<lparr>initialized := True\<rparr>))"

text \<open>The module as imported: nothing initialized.\<close>

definition sdk_initial :: sdk_state where
  "sdk_initial = \<lparr> config = None, client = None, batching_client = None, initialized = False \<rparr>"

section \<open>sdk.py: diagnostics\<close>

text \<open>\<^verbatim>\<open>get_stats\<close>: the dict it returns, as the list of its items.\<close>

definition get_stats :: "sdk_state \<Rightarrow> (string \<times> scalar) list" where
  "get_stats sdk =
     (let stats =
            [(''initialized'', SBool (initialized sdk)),
             (''enabled'', SBool (case config sdk of Some c \<Rightarrow> SDKConfig.enabled c | None \<Rightarrow> False)),
             (''debug'', SBool (case config sdk of Some c \<Rightarrow> debug c | None \<Rightarrow> False))]
      in case batching_client sdk of
           None \<Rightarrow> stats
         | Some c \<Rightarrow>
             dict_set ''retry_queue_size'' (SInt (int (length (retry_queue c))))
               (dict_set ''dropped_count'' (SInt (dropped_count c))
                 (dict_set ''queue_size'' (SInt (int (length (buffer c)))) stats)))"

section \<open>Concrete externals, for running the model\<close>

text \<open>
  Python on the scalars None, bool and int: truth value and text. Printing an integer of
  more than 4300 decimal digits raises ValueError (the interpreter's default limit on
  integer string conversion).
\<close>

definition str_int :: "int \<Rightarrow> string" where
  "str_int n = (if n < 0 then ''-'' @ str_nat (nat (- n)) else str_nat (nat n))"

definition int_fits :: "int \<Rightarrow> bool" where
  "int_fits n = (length (str_nat (nat \<bar>n\<bar>)) \<le> 4300)"

fun scalar_bool :: "scalar \<Rightarrow> bool" where
  "scalar_bool SNone = False"
| "scalar_bool (SBool b) = b"
| "scalar_bool (SInt n) = (n \<noteq> 0)"

fun scalar_str :: "scalar \<Rightarrow> string option" where
  "scalar_str SNone = Some ''None''"
| "scalar_str (SBool b) = Some (if b then ''True'' else ''False'')"
| "scalar_str (SInt n) = (if int_fits n then Some (str_int n) else None)"

text \<open>
  No privacy configuration below hashes, so the digest function is never called:
  \<open>no_digest\<close> stands in its place.
\<close>

definition no_digest :: "string \<Rightarrow> string" where
  "no_digest s = []"

definition py_scalar :: "scalar builtins" where
  "py_scalar = \<lparr> sha256_hex = no_digest, py_bool = scalar_bool, py_format = scalar_str \<rparr>"

text \<open>
  \<^verbatim>\<open>json.dumps\<close> on the payload values: the default separators, strings escaped as
  \<^verbatim>\<open>ensure_ascii\<close> does, and a key that is None, a bool or an int turned into the string of
  its JSON text.
\<close>

definition escape_char :: "char \<Rightarrow> string" where
  "escape_char c =
     (if c = CHR 0x22 then [CHR 0x5C, CHR 0x22]
      else if c = CHR 0x5C then [CHR 0x5C, CHR 0x5C]
      else if c = CHR 0x0A then [CHR 0x5C, CHR ''n'']
      else if c = CHR 0x0D then [CHR 0x5C, CHR ''r'']
      else if c = CHR 0x09 then [CHR 0x5C, CHR ''t'']
      else if c = CHR 0x08 then [CHR 0x5C, CHR ''b'']
      else if c = CHR 0x0C then [CHR 0x5C, CHR ''f'']
      else if (of_char c :: nat) < 32 \<or> (126::nat) < of_char c
        then [CHR 0x5C, CHR ''u'', CHR ''0'', CHR ''0'',
              hexdigit (of_char c div 16), hexdigit (of_char c mod 16)]
      else [c])"

definition quoted :: "string \<Rightarrow> string" where
  "quoted s = [CHR 0x22] @ concat (map escape_char s) @ [CHR 0x22]"

fun scalar_json :: "scalar \<Rightarrow> string" where
  "scalar_json SNone = ''null''"
| "scalar_json (SBool b) = (if b then ''true'' else ''false'')"
| "scalar_json (SInt n) = str_int n"

fun key_json :: "scalar key \<Rightarrow> string" where
  "key_json (StrKey s) = quoted s"
| "key_json (ObjKey a) = [CHR 0x22] @ scalar_json a @ [CHR 0x22]"

fun json_text :: "pyval \<Rightarrow> string"
  and entries_text :: "(scalar key \<times> pyval) list \<Rightarrow> string"
  and items_text :: "pyval list \<Rightarrow> string"
where
  "json_text (Scalar a) = scalar_json a"
| "json_text (Str s) = quoted s"
| "json_text (List xs) = ''['' @ items_text xs @ '']''"
| "json_text (Dict kvs) = ''{'' @ entries_text kvs @ ''}''"
| "entries_text [] = []"
| "entries_text ((k, v) # kvs) =
     key_json k @ '': '' @ json_text v @ (if kvs = [] then [] else '', '' @ entries_text kvs)"
| "items_text [] = []"
| "items_text (x # xs) = json_text x @ (if xs = [] then [] else '', '' @ items_text xs)"

text \<open>
  \<^verbatim>\<open>str(data)\<close>: a string is its own text; every other value prints as \<^verbatim>\<open>repr\<close> does, the
  strings inside it quoted (with a double quote only when the string holds a single quote
  and no double quote) and their quote, backslash and non-printable characters escaped.
\<close>

definition repr_char :: "char \<Rightarrow> char \<Rightarrow> string" where
  "repr_char q c =
     (let n = (of_char c :: nat) in
      if c = q \<or> c = CHR 0x5C then [CHR 0x5C, c]
      else if c = CHR 0x09 then [CHR 0x5C, CHR ''t'']
      else if c = CHR 0x0A then [CHR 0x5C, CHR ''n'']
      else if c = CHR 0x0D then [CHR 0x5C, CHR ''r'']
      else if n < 32 \<or> n = 127 \<or> (128 \<le> n \<and> n \<le> 160) \<or> n = 173
        then [CHR 0x5C, CHR ''x'', hexdigit (n div 16), hexdigit (n mod 16)]
      else [c])"

definition repr_str :: "string \<Rightarrow> string" where
  "repr_str s =
     (let q = (if CHR 0x27 \<in> set s \<and> CHR 0x22 \<notin> set s then CHR 0x22 else CHR 0x27)
      in [q] @ concat (map (repr_char q) s) @ [q])"

fun scalar_repr :: "scalar \<Rightarrow> string" where
  "scalar_repr SNone = ''None''"
| "scalar_repr (SBool b) = (if b then ''True'' else ''False'')"
| "scalar_repr (SInt n) = str_int n"

fun key_repr :: "scalar key \<Rightarrow> string" where
  "key_repr (StrKey s) = repr_str s"
| "key_repr (ObjKey a) = scalar_repr a"

fun repr_text :: "pyval \<Rightarrow> string"
  and entries_repr :: "(scalar key \<times> pyval) list \<Rightarrow> string"
  and items_repr :: "pyval list \<Rightarrow> string"
where
  "repr_text (Scalar a) = scalar_repr a"
| "repr_text (Str s) = repr_str s"
| "repr_text (List xs) = ''['' @ items_repr xs @ '']''"
| "repr_text (Dict kvs) = ''{'' @ entries_repr kvs @ ''}''"
| "entries_repr [] = []"
| "entries_repr ((k, v) # kvs) =
     key_repr k @ '': '' @ repr_text v @ (if kvs = [] then [] else '', '' @ entries_repr kvs)"
| "items_repr [] = []"
| "items_repr (x # xs) = repr_text x @ (if xs = [] then [] else '', '' @ items_repr xs)"

definition str_text :: "pyval \<Rightarrow> string" where
  "str_text v = (case v of Str s \<Rightarrow> s | _ \<Rightarrow> repr_text v)"

text \<open>
  Both \<^verbatim>\<open>json.dumps\<close> and \<^verbatim>\<open>str\<close> raise on a value that holds, as a scalar or as a key, an
  integer too long to print. The values of this model are finite trees, so they hold no
  circular reference, and their keys are strings, None, bools or ints, which \<^verbatim>\<open>json.dumps\<close>
  accepts. The values are taken to nest less deeply than the interpreter's recursion limit
  allows.
\<close>

fun scalar_fits :: "scalar \<Rightarrow> bool" where
  "scalar_fits (SInt n) = int_fits n"
| "scalar_fits a = True"

fun key_fits :: "scalar key \<Rightarrow> bool" where
  "key_fits (StrKey s) = True"
| "key_fits (ObjKey a) = scalar_fits a"

fun ints_fit :: "pyval \<Rightarrow> bool"
  and entries_fit :: "(scalar key \<times> pyval) list \<Rightarrow> bool"
  and items_fit :: "pyval list \<Rightarrow> bool"
where
  "ints_fit (Scalar a) = scalar_fits a"
| "ints_fit (Str s) = True"
| "ints_fit (List xs) = items_fit xs"
| "ints_fit (Dict kvs) = entries_fit kvs"
| "entries_fit [] = True"
| "entries_fit ((k, v) # kvs) = (key_fits k \<and> ints_fit v \<and> entries_fit kvs)"
| "items_fit [] = True"
| "items_fit (x # xs) = (ints_fit x \<and> items_fit xs)"

definition dumps :: "pyval \<Rightarrow> string option" where
  "dumps v = (if ints_fit v then Some (json_text v) else None)"

definition str_of :: "pyval \<Rightarrow> string option" where
  "str_of v = (if ints_fit v then Some (str_text v) else None)"

text \<open>
  The replacement templates of \<^verbatim>\<open>re\<close> for a pattern without groups, as \<^verbatim>\<open>re\<close> parses
  them: a backslash with \<^verbatim>\<open>a b f n r t v\<close> or a backslash is that character; \<^verbatim>\<open>\0\<close> with
  up to two more octal digits, and three octal digits, are the character of that code;
  \<^verbatim>\<open>\g<0>\<close> is the whole match; a backslash before any other character that is not an ASCII
  letter or digit stays as it is. Everything else is rejected: a backslash at the end,
  any other escape of a letter, and every reference to a group other than 0. (A group
  name is read as a number when it is made of decimal digits only, which is the rule since
  Python 3.12.)
\<close>

datatype template_piece = Text_piece char | Match_piece

definition template_escape :: "char \<Rightarrow> char option" where
  "template_escape c =
     (if c = CHR ''a'' then Some (CHR 0x07)
      else if c = CHR ''b'' then Some (CHR 0x08)
      else if c = CHR ''f'' then Some (CHR 0x0C)
      else if c = CHR ''n'' then Some (CHR 0x0A)
      else if c = CHR ''r'' then Some (CHR 0x0D)
      else if c = CHR ''t'' then Some (CHR 0x09)
      else if c = CHR ''v'' then Some (CHR 0x0B)
      else if c = CHR 0x5C then Some (CHR 0x5C)
      else None)"

definition ascii_letter :: "char \<Rightarrow> bool" where
  "ascii_letter c =
     (let n = (of_char c :: nat) in (65 \<le> n \<and> n \<le> 90) \<or> (97 \<le> n \<and> n \<le> 122))"

definition decimal_digit :: "char \<Rightarrow> bool" where
  "decimal_digit c = (let n = (of_char c :: nat) in 48 \<le> n \<and> n \<le> 57)"

definition octal_digit :: "char \<Rightarrow> bool" where
  "octal_digit c = (let n = (of_char c :: nat) in 48 \<le> n \<and> n \<le> 55)"

definition octal_value :: "string \<Rightarrow> nat" where
  "octal_value s = foldl (\<lambda>a c. 8 * a + (of_char c - 48)) 0 s"

function parse_template :: "string \<Rightarrow> template_piece list option" where
  "parse_template [] = Some []"
| "parse_template (c # cs) =
     (if c \<noteq> CHR 0x5C then map_option ((#) (Text_piece c)) (parse_template cs)
      else case cs of
             [] \<Rightarrow> None
           | d # ds \<Rightarrow>
               if d = CHR ''g'' then
                 (let nm = takeWhile (\<lambda>x. x \<noteq> CHR ''>'') (drop 1 ds);
                      rest = dropWhile (\<lambda>x. x \<noteq> CHR ''>'') (drop 1 ds)
                  in if take 1 ds = ''<'' \<and> rest \<noteq> [] \<and> nm \<noteq> [] \<and> list_all (\<lambda>x. x = CHR ''0'') nm
                     then map_option ((#) Match_piece) (parse_template (drop 1 rest))
                     else None)
               else if d = CHR ''0'' then
                 (let oct = takeWhile octal_digit (take 2 ds)
                  in map_option ((#) (Text_piece (char_of (octal_value oct mod 256))))
                       (parse_template (drop (length oct) ds)))
               else if decimal_digit d then
                 (if octal_digit d \<and> list_all octal_digit (take 2 ds) \<and> length ds \<ge> 2
                     \<and> octal_value (d # take 2 ds) \<le> 255
                  then map_option ((#) (Text_piece (char_of (octal_value (d # take 2 ds)))))
                         (parse_template (drop 2 ds))
                  else None)
               else
                 (case template_escape d of
                    Some x \<Rightarrow> map_option ((#) (Text_piece x)) (parse_template ds)
                  | None \<Rightarrow>
                      if ascii_letter d then None
                      else map_option (\<lambda>r. Text_piece c # Text_piece d # r) (parse_template ds)))"
  by pat_completeness auto
termination
  apply (relation "measure length")
  apply (auto simp: less_Suc_eq_le)
  apply (rule le_trans[OF diff_le_self])
  apply (rule le_trans[OF length_dropWhile_le])
  apply simp
  done

definition groupless_template :: "string \<Rightarrow> (string \<Rightarrow> nat \<times> nat \<Rightarrow> string) option" where
  "groupless_template repl =
     map_option
       (\<lambda>pieces s m.
          concat (map (\<lambda>piece. case piece of
                                  Text_piece x \<Rightarrow> [x]
                                | Match_piece \<Rightarrow> take (snd m - fst m) (drop (fst m) s))
                      pieces))
       (parse_template repl)"

text \<open>
  \<^verbatim>\<open>int(s, 16)\<close> and \<^verbatim>\<open>int(s)\<close> on plain digit strings (with a sign for the decimal one),
  \<^verbatim>\<open>float(s)\<close> on plain decimal fractions. Python accepts further spellings (surrounding
  blanks, underscores, a \<^verbatim>\<open>0x\<close> prefix, exponents); these stand-ins answer None there and
  are only run on plain digit strings.
\<close>

definition digit_value :: "char \<Rightarrow> nat option" where
  "digit_value c =
     (let n = (of_char c :: nat) in
      if 48 \<le> n \<and> n \<le> 57 then Some (n - 48)
      else if 97 \<le> n \<and> n \<le> 102 then Some (n - 87)
      else if 65 \<le> n \<and> n \<le> 70 then Some (n - 55)
      else None)"

fun digits_value :: "nat \<Rightarrow> string \<Rightarrow> nat \<Rightarrow> nat option" where
  "digits_value base [] acc = Some acc"
| "digits_value base (c # cs) acc =
     (case digit_value c of
        None \<Rightarrow> None
      | Some d \<Rightarrow> if d < base then digits_value base cs (base * acc + d) else None)"

definition hex_int :: "string \<Rightarrow> int option" where
  "hex_int s = (if s = [] then None else map_option int (digits_value 16 s 0))"

definition dec_int :: "string \<Rightarrow> int option" where
  "dec_int s =
     (case s of
        [] \<Rightarrow> None
      | c # cs \<Rightarrow>
          if c = CHR ''-'' then (if cs = [] then None else map_option (\<lambda>n. - int n) (digits_value 10 cs 0))
          else map_option int (digits_value 10 s 0))"

definition dec_float :: "string \<Rightarrow> real option" where
  "dec_float s =
     (let whole = takeWhile (\<lambda>c. c \<noteq> CHR ''.'') s;
          frac = drop (Suc (length whole)) s
      in if whole = [] then None
         else case (digits_value 10 whole 0, digits_value 10 frac 0) of
                (Some w, Some f) \<Rightarrow> Some (real w + real f / 10 ^ length frac)
              | _ \<Rightarrow> None)"

text \<open>Modelled from the spec: \<^verbatim>\<open>BatchingAgentreplayClient.insert\<close> is not among the sources. The
  batching pipeline's insert appends to the buffer if it is not full; if it is full, it
  drops the oldest entry and increments the dropped count.
\<close>

definition insert_edge :: "AgentFlowEdge \<Rightarrow> BatchingClient \<Rightarrow> BatchingClient" where
  "insert_edge e c =
     (if int (length (buffer c)) < max_buffer_size c then c\<lparr>buffer := buffer c @ [e]\<rparr>
      else c\<lparr>buffer := drop 1 (buffer c) @ [e], dropped_count := dropped_count c + 1\<rparr>)"

definition python :: externals where
  "python =
     \<lparr> json_dumps = dumps, py_str = str_of, int16 = hex_int, parse_int = dec_int,
       parse_float = dec_float, client_insert = insert_edge \<rparr>"

section \<open>examples/langchain_callback.py: the callback adapter\<close>

text \<open>Modelled from the spec: \<^verbatim>\<open>flowtrace.genai.GenAISpan\<close> and \<^verbatim>\<open>Flowtrace.send_span\<close> are not
  among the sources. The span is the record of what the adapter passes to its constructor
  and methods (token counts start as None); \<^verbatim>\<open>send_span\<close> is the list of the spans sent so
  far, each with its duration.
\<close>

record GenAISpan =
  name :: string
  system :: string
  operation_name :: string
  request_model :: string
  temperature :: "real option"
  max_tokens :: "int option"
  prompts :: "(string \<times> string) list"
  completions :: "(string \<times> string \<times> string) list"
  input_tokens :: "int option"
  output_tokens :: "int option"
  total_tokens :: "int option"
  attributes :: "(string \<times> string) list"

text \<open>The adapter object: the active-span table and the client it sends through.\<close>

record FlowtraceCallback =
  active_spans :: "string \<rightharpoonup> (GenAISpan \<times> real)"
  sent :: "(GenAISpan \<times> real) list"

text \<open>The arguments of the callbacks: the \<^verbatim>\<open>serialized\<close> dict of the start event and the
  \<^verbatim>\<open>LLMResult\<close> of the end event, by the entries the handlers read.\<close>

record serialized_kwargs =
  model_name :: "string option"
  temperature :: "real option"
  max_tokens :: "int option"

record serialized =
  ser_name :: "string option"
  ser_kwargs :: "serialized_kwargs option"

record LLMResult =
  generations :: "string list list"
  llm_output :: "(string \<times> (string \<times> int) list) list option"

text \<open>\<^verbatim>\<open>needle in s\<close> on strings.\<close>

fun contains :: "string \<Rightarrow> string \<Rightarrow> bool" where
  "contains [] needle = (needle = [])"
| "contains (c # cs) needle = (take (length needle) (c # cs) = needle \<or> contains cs needle)"

definition detect_provider :: "string \<Rightarrow> string" where
  "detect_provider mname =
     (let model_lower = lower mname in
      if contains model_lower ''openai'' \<or> contains model_lower ''gpt'' then ''openai''
      else if contains model_lower ''anthropic'' \<or> contains model_lower ''claude'' then ''anthropic''
      else if contains model_lower ''cohere'' then ''cohere''
      else ''unknown'')"

text \<open>
  \<^verbatim>\<open>on_llm_start\<close>. \<open>run_id\<close> is the keyword argument \<^verbatim>\<open>run_id\<close> as \<^verbatim>\<open>str\<close> prints it, None
  when it is absent; \<open>default_id\<close> is the text \<^verbatim>\<open>str(time.time())\<close> used then; \<open>now\<close> is the
  time stored with the span.
\<close>

definition on_llm_start ::
  "serialized \<Rightarrow> string list \<Rightarrow> string option \<Rightarrow> string \<Rightarrow> real \<Rightarrow>
   FlowtraceCallback \<Rightarrow> FlowtraceCallback" where
  "on_llm_start ser ps run_id default_id now cb =
     (let key = (case run_id of Some r \<Rightarrow> r | None \<Rightarrow> default_id);
          mname = (case ser_name ser of Some n \<Rightarrow> n | None \<Rightarrow> ''unknown'');
          kw = (case ser_kwargs ser of Some k \<Rightarrow> k
                | None \<Rightarrow> \<lparr> model_name = None, serialized_kwargs.temperature = None,
                            serialized_kwargs.max_tokens = None \<rparr>);
          sp = \<lparr> GenAISpan.name = ''langchain.'' @ mname,
                 system = detect_provider mname,
                 operation_name = ''completion'',
                 request_model = (case model_name kw of Some m \<Rightarrow> m | None \<Rightarrow> mname),
                 GenAISpan.temperature = serialized_kwargs.temperature kw,
                 GenAISpan.max_tokens = serialized_kwargs.max_tokens kw,
                 prompts = map (\<lambda>p. (''user'', p)) ps,
                 completions = [],
                 input_tokens = None, output_tokens = None, total_tokens = None,
                 GenAISpan.attributes = [] \<rparr>
      in cb\<lparr>active_spans := (active_spans cb)(key \<mapsto> (sp, now))\<rparr>)"

text \<open>The key that the end and error handlers look up: \<^verbatim>\<open>str(kwargs.get('run_id', ''))\<close>.\<close>

definition run_key :: "string option \<Rightarrow> string" where
  "run_key run_id = (case run_id of Some r \<Rightarrow> r | None \<Rightarrow> [])"

definition index_error :: exn where
  "index_error = \<lparr> exn_type = ''IndexError'', exn_message = ''list index out of range'' \<rparr>"

text \<open>
  \<^verbatim>\<open>on_llm_end\<close>: the exception raised, if any, and the adapter afterwards. The entry is
  popped before \<^verbatim>\<open>response.generations[0]\<close> is read, so an empty \<^verbatim>\<open>generations\<close> raises
  IndexError with the entry already removed.
\<close>

definition on_llm_end ::
  "LLMResult \<Rightarrow> string option \<Rightarrow> real \<Rightarrow> FlowtraceCallback \<Rightarrow> exn option \<times> FlowtraceCallback"
  where
  "on_llm_end response run_id now cb =
     (let key = run_key run_id in
      case active_spans cb key of
        None \<Rightarrow> (None, cb)
      | Some (sp, start) \<Rightarrow>
          let cb1 = cb\<lparr>active_spans := (active_spans cb)(key := None)\<rparr> in
          (case generations response of
             [] \<Rightarrow> (Some index_error, cb1)
           | gens # _ \<Rightarrow>
               let sp1 = sp\<lparr>completions :=
                              completions sp @ map (\<lambda>t. (''assistant'', t, ''stop'')) gens\<rparr>;
                   sp2 =
                     (case llm_output response of
                        None \<Rightarrow> sp1
                      | Some out \<Rightarrow>
                          if out = [] then sp1
                          else
                            let usage = (case map_of out ''token_usage'' of Some u \<Rightarrow> u | None \<Rightarrow> [])
                            in sp1\<lparr>input_tokens := map_of usage ''prompt_tokens'',
                                   output_tokens := map_of usage ''completion_tokens'',
                                   total_tokens := map_of usage ''total_tokens''\<rparr>)
               in (None, cb1\<lparr>sent := sent cb1 @ [(sp2, now - start)]\<rparr>)))"

text \<open>\<^verbatim>\<open>on_llm_error\<close>; \<^verbatim>\<open>add_attribute\<close> stores the attribute on the span.\<close>

definition on_llm_error ::
  "exn \<Rightarrow> string option \<Rightarrow> real \<Rightarrow> FlowtraceCallback \<Rightarrow> exn option \<times> FlowtraceCallback"
  where
  "on_llm_error err run_id now cb =
     (let key = run_key run_id in
      case active_spans cb key of
        None \<Rightarrow> (None, cb)
      | Some (sp, start) \<Rightarrow>
          let cb1 = cb\<lparr>active_spans := (active_spans cb)(key := None)\<rparr>;
              sp1 = sp\<lparr>GenAISpan.attributes :=
                         dict_set ''error.message'' (exn_message err)
                           (dict_set ''error.type'' (exn_type err) (GenAISpan.attributes sp))\<rparr>
          in (None, cb1\<lparr>sent := sent cb1 @ [(sp1, now - start)]\<rparr>))"

text \<open>A trace of callback events, run in order; an exception does not stop the adapter,
  which keeps the state the failing handler left.\<close>

datatype callback_event =
    LLMStart serialized "string list" "string option" string real
  | LLMEnd LLMResult "string option" real
  | LLMError exn "string option" real

fun handle :: "callback_event \<Rightarrow> FlowtraceCallback \<Rightarrow> FlowtraceCallback" where
  "handle (LLMStart ser ps run_id default_id now) cb = on_llm_start ser ps run_id default_id now cb"
| "handle (LLMEnd response run_id now) cb = snd (on_llm_end response run_id now cb)"
| "handle (LLMError err run_id now) cb = snd (on_llm_error err run_id now cb)"

definition run :: "callback_event list \<Rightarrow> FlowtraceCallback \<Rightarrow> FlowtraceCallback" where
  "run evs cb = foldl (\<lambda>c ev. handle ev c) cb evs"

text \<open>The key under which a start event registers its span, and the key an end or error
  event looks up.\<close>

fun registers :: "callback_event \<Rightarrow> string option" where
  "registers (LLMStart ser ps run_id default_id now) =
     Some (case run_id of Some r \<Rightarrow> r | None \<Rightarrow> default_id)"
| "registers _ = None"

fun closes :: "callback_event \<Rightarrow> string option" where
  "closes (LLMStart ser ps run_id default_id now) = None"
| "closes (LLMEnd response run_id now) = Some (run_key run_id)"
| "closes (LLMError err run_id now) = Some (run_key run_id)"

section \<open>Example states\<close>

text \<open>A span that was started at time 1 and ended at time 2, before \<^verbatim>\<open>init\<close>.\<close>

definition closed_span :: ActiveSpan where
  "closed_span =
     fst (end_span python 2 (ActiveSpan_init ''job'' ''chain'' None None None 1 0 0, sdk_initial))"

text \<open>
  Privacy configurations. \<open>at_sign\<close> is the compiled pattern \<^verbatim>\<open>@\<close>: its matches are the
  single characters \<^verbatim>\<open>@\<close> of the string, and it has no group. \<open>bad_template\<close> has a lone
  backslash as its replacement text.
\<close>

definition at_sign_matches :: "string \<Rightarrow> (nat \<times> nat) list" where
  "at_sign_matches s = map (\<lambda>i. (i, Suc i)) (filter (\<lambda>i. s ! i = CHR ''@'') [0..<length s])"

definition at_sign :: Pattern where
  "at_sign = \<lparr> finditer = at_sign_matches, template = groupless_template \<rparr>"

definition scrub_password :: PrivacyConfig where
  "scrub_password =
     add_scrub_path ''input.password''
       (PrivacyConfig_default\<lparr>PrivacyConfig.redact_patterns := [at_sign]\<rparr>)"

definition masking :: PrivacyConfig where
  "masking = PrivacyConfig_default\<lparr>custom_redactor := Some (\<lambda>s. ''***'')\<rparr>"

definition bad_template :: PrivacyConfig where
  "bad_template =
     add_scrub_path ''password''
       (PrivacyConfig_default\<lparr>PrivacyConfig.redact_patterns := [at_sign],
                               redacted_text := [CHR 0x5C]\<rparr>)"

definition login_payload :: pyval where
  "login_payload =
     Dict [(StrKey ''input'',
            Dict [(StrKey ''password'', Str ''secret123''), (StrKey ''query'', Str ''hello'')])]"

definition query_payload :: pyval where
  "query_payload =
     Dict [(StrKey ''input'',
            Dict [(StrKey ''query'', Str ''hello''),
                  (StrKey ''tags'', List [Str ''a'', Scalar (SInt 1)])])]"

definition nested_payload :: pyval where
  "nested_payload = Dict [(StrKey ''items'', List [Dict [(StrKey ''password'', Str ''x'')]])]"

definition int_key_payload :: pyval where
  "int_key_payload = Dict [(ObjKey (SInt 1), Str ''v'')]"

text \<open>
  The SDK after \<^verbatim>\<open>init()\<close> with no argument and an empty environment, called from the main
  thread; a span whose input holds a password; a privacy configuration that scrubs every
  \<^verbatim>\<open>password\<close> key; and the arguments of \<^verbatim>\<open>init(strict=True)\<close>.
\<close>

definition ready_sdk :: sdk_state where
  "ready_sdk = snd (snd (init python Map.empty True no_args sdk_initial))"

definition login_span :: ActiveSpan where
  "login_span =
     set_input (Dict [(StrKey ''password'', Str ''secret123'')])
       (ActiveSpan_init ''login'' ''chain'' None None None 1 0 0)"

definition scrub_any_password :: PrivacyConfig where
  "scrub_any_password = add_scrub_path ''password'' PrivacyConfig_default"


text \<open>The \<^verbatim>\<open>input\<close> entries of the edges in the buffer of the batching client.\<close>

definition buffered_inputs :: "sdk_state \<Rightarrow> payload_value option list" where
  "buffered_inputs sdk =
     map (\<lambda>e. map_of (payload e) ''input'')
         (case batching_client sdk of Some c \<Rightarrow> buffer c | None \<Rightarrow> [])"

text \<open>An exception that leaves the \<^verbatim>\<open>with\<close> block of a span, with its traceback text.\<close>

definition login_failure :: "exn \<times> string" where
  "login_failure =
     (\<lparr> exn_type = ''ValueError'', exn_message = ''bad login'' \<rparr>, ''Traceback'')"

text \<open>That SDK later on: its batching client has dropped three spans and its last delivery
  failed.\<close>

definition stats_state :: sdk_state where
  "stats_state =
     ready_sdk\<lparr>batching_client :=
       Some \<lparr> buffer = [], dropped_count = 3, retry_queue = [], last_error = Some ''timeout'',
              BatchingClient.batch_size = 100, BatchingClient.flush_interval = 5,
              max_buffer_size = 10000 \<rparr>\<rparr>"

text \<open>A callback adapter with nothing in flight, and the events of one LLM run.\<close>

definition cb_empty :: FlowtraceCallback where
  "cb_empty = \<lparr> active_spans = Map.empty, sent = [] \<rparr>"

definition gpt_start :: callback_event where
  "gpt_start =
     LLMStart \<lparr> ser_name = Some ''gpt-4'', ser_kwargs = None \<rparr> [''Hello''] (Some ''run-1'') ''0.0'' 10"

definition gpt_end :: callback_event where
  "gpt_end = LLMEnd \<lparr> generations = [[''Hi'']], llm_output = None \<rparr> (Some ''run-1'') 11"

definition gpt_error :: callback_event where
  "gpt_error = LLMError \<lparr> exn_type = ''Timeout'', exn_message = ''slow'' \<rparr> (Some ''run-1'') 12"

section \<open>Properties of the redaction\<close>

lemma sub_text_no_match:
  "finditer p s = [] \<Longrightarrow> CHR 0x5C \<notin> set repl \<or> template p repl \<noteq> None \<Longrightarrow>
   sub_text p repl s = Inr s"
  by (auto simp: sub_text_def)

lemma sub_callable_no_match: "finditer p s = [] \<Longrightarrow> sub_callable p f s = s"
  by (simp add: sub_callable_def)

lemma apply_patterns_no_match:
  "\<forall>p\<in>set ps. finditer p s = [] \<Longrightarrow>
   hash_pii cfg \<or> (\<forall>p\<in>set ps. CHR 0x5C \<notin> set (redacted_text cfg) \<or> template p (redacted_text cfg) \<noteq> None) \<Longrightarrow>
   apply_patterns py cfg ps s = Inr s"
  by (induction ps) (auto simp: sub_text_no_match sub_callable_no_match)

lemma redact_string_no_match:
  assumes "\<forall>p\<in>set (PrivacyConfig.redact_patterns cfg). finditer p s = []"
    and "\<forall>f. custom_redactor cfg = Some f \<longrightarrow> f s = s"
    and "hash_pii cfg \<or> (\<forall>p\<in>set (PrivacyConfig.redact_patterns cfg).
            CHR 0x5C \<notin> set (redacted_text cfg) \<or> template p (redacted_text cfg) \<noteq> None)"
  shows "redact_string py cfg s = Inr s"
  using assms
  by (cases "custom_redactor cfg") (simp_all add: redact_string_def apply_patterns_no_match)

lemma redact_value_no_match:
  fixes v :: "'a json" and kvs :: "('a key \<times> 'a json) list" and xs :: "'a json list"
  assumes t: "hash_pii cfg \<or> (\<forall>p\<in>set (PrivacyConfig.redact_patterns cfg).
            CHR 0x5C \<notin> set (redacted_text cfg) \<or> template p (redacted_text cfg) \<noteq> None)"
  shows "scrub_check py cfg path = Inr False \<Longrightarrow>
     \<forall>q\<in>set (key_paths py v path). \<exists>p. q = Inr p \<and> scrub_check py cfg p = Inr False \<Longrightarrow>
     \<forall>s\<in>set (string_leaves v). (\<forall>p\<in>set (PrivacyConfig.redact_patterns cfg). finditer p s = []) \<and>
        (\<forall>f. custom_redactor cfg = Some f \<longrightarrow> f s = s) \<Longrightarrow>
     redact_value py cfg v path = Inr v"
  and "\<forall>q\<in>set (entries_paths py kvs path). \<exists>p. q = Inr p \<and> scrub_check py cfg p = Inr False \<Longrightarrow>
     \<forall>s\<in>set (entries_leaves kvs). (\<forall>p\<in>set (PrivacyConfig.redact_patterns cfg). finditer p s = []) \<and>
        (\<forall>f. custom_redactor cfg = Some f \<longrightarrow> f s = s) \<Longrightarrow>
     redact_entries py cfg kvs path = Inr kvs"
  and "\<forall>q\<in>set (items_paths py xs i path). \<exists>p. q = Inr p \<and> scrub_check py cfg p = Inr False \<Longrightarrow>
     \<forall>s\<in>set (items_leaves xs). (\<forall>p\<in>set (PrivacyConfig.redact_patterns cfg). finditer p s = []) \<and>
        (\<forall>f. custom_redactor cfg = Some f \<longrightarrow> f s = s) \<Longrightarrow>
     redact_items py cfg xs i path = Inr xs"
  using t
proof (induction py cfg v path and py cfg kvs path and py cfg xs i path
       rule: redact_value_redact_entries_redact_items.induct)
  case (1 py cfg kvs path)
  then show ?case using "1.IH"[of False] by simp
next
  case (2 py cfg xs path)
  then show ?case using "2.IH"[of False] by simp
next
  case (3 py cfg s path)
  then show ?case by (simp add: redact_string_no_match)
next
  case (6 py cfg k v kvs path)
  then show ?case by (cases "key_path py path k") auto
next
  case (8 py cfg x xs i path)
  then show ?case by (cases "item_path py path i") auto
qed auto

lemma scrubbed_subtree:
  "scrub_check py cfg path = Inr True \<Longrightarrow>
   redact_value py cfg v path = Inr (Str (redacted_text cfg))"
  by (cases v) simp_all

lemma redact_entries_nth:
  "redact_entries py cfg kvs path = Inr kvs' \<Longrightarrow>
   length kvs' = length kvs \<and>
   (\<forall>i<length kvs. fst (kvs' ! i) = fst (kvs ! i) \<and>
      (\<exists>p. key_path py path (fst (kvs ! i)) = Inr p \<and>
           redact_value py cfg (snd (kvs ! i)) p = Inr (snd (kvs' ! i))))"
proof (induction kvs arbitrary: kvs')
  case Nil
  then show ?case by simp
next
  case (Cons kv kvs)
  obtain k v where kv: "kv = (k, v)" by (cases kv)
  from Cons.prems kv obtain p v' rest where
    p: "key_path py path k = Inr p" and v': "redact_value py cfg v p = Inr v'"
    and rest: "redact_entries py cfg kvs path = Inr rest" and eq: "kvs' = (k, v') # rest"
    by (auto split: sum.splits)
  from Cons.IH[OF rest] show ?case
    using p v' eq kv by (auto simp: nth_Cons split: nat.splits)
qed

lemma redact_items_nth:
  "redact_items py cfg xs i0 path = Inr xs' \<Longrightarrow>
   length xs' = length xs \<and>
   (\<forall>j<length xs. \<exists>p. item_path py path (i0 + j) = Inr p \<and>
           redact_value py cfg (xs ! j) p = Inr (xs' ! j))"
proof (induction xs arbitrary: xs' i0)
  case Nil
  then show ?case by simp
next
  case (Cons x xs)
  from Cons.prems obtain p x' rest where
    p: "item_path py path i0 = Inr p" and x': "redact_value py cfg x p = Inr x'"
    and rest: "redact_items py cfg xs (Suc i0) path = Inr rest" and eq: "xs' = x' # rest"
    by (auto split: sum.splits)
  from Cons.IH[OF rest] show ?case
    using p x' eq by (auto simp: nth_Cons split: nat.splits)
qed

lemma walk_reaches_scrubbed:
  "redact_value py cfg v path = Inr v' \<Longrightarrow>
   node_path py v path pos = Some p \<Longrightarrow>
   scrub_check py cfg p = Inr True \<Longrightarrow>
   (\<forall>n<length pos. \<forall>q. node_path py v path (take n pos) = Some q \<longrightarrow> scrub_check py cfg q = Inr False) \<Longrightarrow>
   subtree v' pos = Some (Str (redacted_text cfg))"
proof (induction pos arbitrary: v v' path)
  case Nil
  then show ?case by (simp add: scrubbed_subtree)
next
  case (Cons i pos)
  have root: "scrub_check py cfg path = Inr False"
    using Cons.prems(4)[rule_format, of 0 path] by simp
  have anc: "\<And>n q. n < length pos \<Longrightarrow> node_path py v path (i # take n pos) = Some q \<Longrightarrow>
       scrub_check py cfg q = Inr False"
    using Cons.prems(4)[rule_format, of "Suc _"] by simp
  show ?case
  proof (cases v)
    case (Dict kvs)
    with Cons.prems(2) obtain pi where i: "i < length kvs"
      and pi: "key_path py path (fst (kvs ! i)) = Inr pi"
      and np: "node_path py (snd (kvs ! i)) pi pos = Some p"
      by (auto split: if_splits sum.splits)
    from Cons.prems(1) Dict root obtain kvs' where
      r: "redact_entries py cfg kvs path = Inr kvs'" and v': "v' = Dict kvs'"
      by (auto split: sum.splits)
    from redact_entries_nth[OF r] i pi have len: "length kvs' = length kvs"
      and rv: "redact_value py cfg (snd (kvs ! i)) pi = Inr (snd (kvs' ! i))"
      by auto
    have "\<forall>n<length pos. \<forall>q. node_path py (snd (kvs ! i)) pi (take n pos) = Some q \<longrightarrow>
            scrub_check py cfg q = Inr False"
      using anc Dict i pi by simp
    from Cons.IH[OF rv np Cons.prems(3) this] show ?thesis
      using v' len i by simp
  next
    case (List xs)
    with Cons.prems(2) obtain pi where i: "i < length xs"
      and pi: "item_path py path i = Inr pi"
      and np: "node_path py (xs ! i) pi pos = Some p"
      by (auto split: if_splits sum.splits)
    from Cons.prems(1) List root obtain xs' where
      r: "redact_items py cfg xs 0 path = Inr xs'" and v': "v' = List xs'"
      by (auto split: sum.splits)
    from redact_items_nth[OF r] i pi have len: "length xs' = length xs"
      and rv: "redact_value py cfg (xs ! i) pi = Inr (xs' ! i)"
      by auto
    have "\<forall>n<length pos. \<forall>q. node_path py (xs ! i) pi (take n pos) = Some q \<longrightarrow>
            scrub_check py cfg q = Inr False"
      using anc List i pi by simp
    from Cons.IH[OF rv np Cons.prems(3) this] show ?thesis
      using v' len i by simp
  next
    case (Str s)
    with Cons.prems(2) show ?thesis by simp
  next
    case (Scalar a)
    with Cons.prems(2) show ?thesis by simp
  qed
qed

lemma str_nat_digits: "str_nat 0 = ''0''" "str_nat (Suc 0) = ''1''"
  by code_simp+

lemma lower_latin1: "lower [CHR 0xC9, CHR ''A'', CHR 0xD7, CHR ''z''] = [CHR 0xE9, CHR ''a'', CHR 0xD7, CHR ''z'']"
  by code_simp

lemma lower_plain:
  "lower [] = []"
  "lower ''input'' = ''input''" "lower ''input.password'' = ''input.password''"
  "lower ''input.query'' = ''input.query''" "lower ''password'' = ''password''"
  "lower ''items'' = ''items''" "lower ''items[0]'' = ''items[0]''"
  "lower ''items[0].password'' = ''items[0].password''"
  "lower ''query'' = ''query''"
  by (simp_all add: lower_def lower_char_def)

lemma at_sign_none: "finditer at_sign ''hello'' = []" "finditer at_sign ''a'' = []"
  by (simp_all add: at_sign_def at_sign_matches_def upt_rec)

lemma at_sign_a_b: "finditer at_sign ''a@b'' = [(1, 2)]"
  by (simp add: at_sign_def at_sign_matches_def upt_rec)

lemma root_check: "scrub_check py cfg (StrKey []) = Inr False"
  by (simp add: scrub_check_def truthy_key_def)

lemma str_key_check:
  "s \<noteq> [] \<Longrightarrow> scrub_check py cfg (StrKey s) = Inr (should_scrub_path cfg s)"
  by (simp add: scrub_check_def truthy_key_def)

lemma str_key_path:
  "key_path py (StrKey p) (StrKey k) = Inr (StrKey (if p \<noteq> [] then p @ ''.'' @ k else k))"
  by (simp add: key_path_def truthy_key_def format_key_def)

lemma str_item_path:
  "item_path py (StrKey p) i = Inr (StrKey (p @ ''['' @ str_nat i @ '']''))"
  by (simp add: item_path_def format_key_def)

text \<open>A key with a Latin-1 capital is scrubbed under the scrub path in lower case:
  \<^verbatim>\<open>lower\<close> maps the capital E with acute accent to the small one.\<close>

lemma lower_e_acute: "lower [CHR 0xC9] = [CHR 0xE9]" "lower [CHR 0xE9] = [CHR 0xE9]"
  by code_simp+

lemma latin1_key_scrubbed:
  "redact_payload py_scalar (add_scrub_path [CHR 0xE9] PrivacyConfig_default)
     (Dict [(StrKey [CHR 0xC9], Str ''v'')])
     = Inr (Dict [(StrKey [CHR 0xC9], Str ''[REDACTED]'')])"
  by (simp add: redact_payload_def add_scrub_path_def PrivacyConfig_default_def root_check
      str_key_path str_key_check should_scrub_path_def lower_e_acute)

text \<open>
  C4. The scenario: for every configuration that is enabled, has the one scrub path
  \<^verbatim>\<open>input.password\<close> and the default marker, and whose patterns and custom redactor leave
  \<^verbatim>\<open>hello\<close> alone, redacting \<^verbatim>\<open>{"input": {"password": "secret123", "query": "hello"}}\<close>
  gives \<^verbatim>\<open>{"input": {"password": "[REDACTED]", "query": "hello"}}\<close>. The order, at one
  call: whenever the scrub test of a path answers True, \<^verbatim>\<open>_redact_value\<close> returns the
  marker for every value, whatever the value holds, the patterns and the replacement
  text are (no pattern is applied, so not even an invalid replacement template raises).
  The order, through the walk: when \<^verbatim>\<open>redact_payload\<close> returns, every node of the payload
  whose path passes the scrub test and none of whose ancestors does is the marker in the
  result: the walk brings the test to the nodes inside dicts and lists, at any depth.
\<close>

theorem scrub_path_before_patterns:
  "(PrivacyConfig.enabled cfg \<and> scrub_paths cfg = [''input.password'']
     \<and> redacted_text cfg = ''[REDACTED]''
     \<and> (\<forall>p\<in>set (PrivacyConfig.redact_patterns cfg). finditer p ''hello'' = [])
     \<and> (\<forall>f. custom_redactor cfg = Some f \<longrightarrow> f ''hello'' = ''hello'')
    \<longrightarrow> redact_payload py cfg
          (Dict [(StrKey ''input'',
                  Dict [(StrKey ''password'', Str ''secret123''), (StrKey ''query'', Str ''hello'')])])
        = Inr (Dict [(StrKey ''input'',
                      Dict [(StrKey ''password'', Str ''[REDACTED]''),
                            (StrKey ''query'', Str ''hello'')])]))
   \<and> (scrub_check py cfg' path = Inr True
        \<longrightarrow> redact_value py cfg' v path = Inr (Str (redacted_text cfg')))
   \<and> (PrivacyConfig.enabled cfg' \<and> redact_payload py cfg' w = Inr w'
        \<and> node_path py w (StrKey []) pos = Some p \<and> scrub_check py cfg' p = Inr True
        \<and> (\<forall>n<length pos. \<forall>q. node_path py w (StrKey []) (take n pos) = Some q
                \<longrightarrow> scrub_check py cfg' q = Inr False)
        \<longrightarrow> subtree w' pos = Some (Str (redacted_text cfg')))"
proof (intro conjI impI)
  assume a: "PrivacyConfig.enabled cfg \<and> scrub_paths cfg = [''input.password'']
     \<and> redacted_text cfg = ''[REDACTED]''
     \<and> (\<forall>p\<in>set (PrivacyConfig.redact_patterns cfg). finditer p ''hello'' = [])
     \<and> (\<forall>f. custom_redactor cfg = Some f \<longrightarrow> f ''hello'' = ''hello'')"
  then have h: "redact_string py cfg ''hello'' = Inr ''hello''"
    by (intro redact_string_no_match) auto
  have s1: "\<not> should_scrub_path cfg ''input''"
    using a by (simp add: should_scrub_path_def endswith_def lower_plain)
  have s2: "should_scrub_path cfg ''input.password''"
    using a by (simp add: should_scrub_path_def lower_plain)
  have s3: "\<not> should_scrub_path cfg ''input.query''"
    using a by (simp add: should_scrub_path_def endswith_def lower_plain)
  show "redact_payload py cfg
          (Dict [(StrKey ''input'',
                  Dict [(StrKey ''password'', Str ''secret123''), (StrKey ''query'', Str ''hello'')])])
        = Inr (Dict [(StrKey ''input'',
                      Dict [(StrKey ''password'', Str ''[REDACTED]''),
                            (StrKey ''query'', Str ''hello'')])])"
    using a h s1 s2 s3 by (simp add: redact_payload_def root_check str_key_path str_key_check)
next
  assume "scrub_check py cfg' path = Inr True"
  then show "redact_value py cfg' v path = Inr (Str (redacted_text cfg'))"
    by (rule scrubbed_subtree)
next
  assume b: "PrivacyConfig.enabled cfg' \<and> redact_payload py cfg' w = Inr w'
        \<and> node_path py w (StrKey []) pos = Some p \<and> scrub_check py cfg' p = Inr True
        \<and> (\<forall>n<length pos. \<forall>q. node_path py w (StrKey []) (take n pos) = Some q
                \<longrightarrow> scrub_check py cfg' q = Inr False)"
  then have "PrivacyConfig.enabled cfg'" and "redact_payload py cfg' w = Inr w'"
    by simp_all
  then have "redact_value py cfg' w (StrKey []) = Inr w'"
    by (simp add: redact_payload_def)
  from walk_reaches_scrubbed[OF this] b
  show "subtree w' pos = Some (Str (redacted_text cfg'))"
    by blast
qed

lemma nested_paths:
  "node_path py_scalar nested_payload (StrKey []) [] = Some (StrKey [])"
  "node_path py_scalar nested_payload (StrKey []) [0] = Some (StrKey ''items'')"
  "node_path py_scalar nested_payload (StrKey []) [0, 0] = Some (StrKey ''items[0]'')"
  "node_path py_scalar nested_payload (StrKey []) [0, 0, 0] = Some (StrKey ''items[0].password'')"
  by (simp_all add: nested_payload_def str_key_path str_item_path str_nat_digits)

lemma any_password_checks:
  "scrub_check py_scalar scrub_any_password (StrKey ''items'') = Inr False"
  "scrub_check py_scalar scrub_any_password (StrKey ''items[0]'') = Inr False"
  "scrub_check py_scalar scrub_any_password (StrKey ''items[0].password'') = Inr True"
  by (simp_all add: str_key_check should_scrub_path_def scrub_any_password_def add_scrub_path_def
      PrivacyConfig_default_def lower_plain endswith_def)

lemma nested_redacted:
  "redact_payload py_scalar scrub_any_password nested_payload
     = Inr (Dict [(StrKey ''items'', List [Dict [(StrKey ''password'', Str ''[REDACTED]'')]])])"
proof -
  have "PrivacyConfig.enabled scrub_any_password" "redacted_text scrub_any_password = ''[REDACTED]''"
    by (simp_all add: scrub_any_password_def add_scrub_path_def PrivacyConfig_default_def)
  then show ?thesis
    by (simp add: redact_payload_def nested_payload_def root_check str_key_path str_item_path
        str_nat_digits any_password_checks)
qed

lemma bad_template_checks:
  "scrub_check py_scalar bad_template (StrKey ''password'') = Inr True"
  "scrub_check py_scalar bad_template (StrKey ''query'') = Inr False"
  by (simp_all add: str_key_check should_scrub_path_def bad_template_def add_scrub_path_def
      PrivacyConfig_default_def lower_plain endswith_def)

lemma lone_backslash: "groupless_template [CHR 0x5C] = None"
  by (simp add: groupless_template_def)

lemma bad_template_string:
  "redact_string py_scalar bad_template ''a@b'' = Inl Re_error"
  by (simp add: redact_string_def bad_template_def add_scrub_path_def PrivacyConfig_default_def
      sub_text_def at_sign_a_b lone_backslash)
     (simp add: at_sign_def lone_backslash)

theorem scrub_path_before_patterns_witness:
  "PrivacyConfig.enabled scrub_password \<and> scrub_paths scrub_password = [''input.password'']
   \<and> redacted_text scrub_password = ''[REDACTED]''
   \<and> PrivacyConfig.redact_patterns scrub_password = [at_sign] \<and> finditer at_sign ''hello'' = []
   \<and> custom_redactor scrub_password = None
   \<and> redact_payload py_scalar scrub_password login_payload
        = Inr (Dict [(StrKey ''input'',
                      Dict [(StrKey ''password'', Str ''[REDACTED]''),
                            (StrKey ''query'', Str ''hello'')])])
   \<and> scrub_check py_scalar bad_template (StrKey ''password'') = Inr True
   \<and> redact_value py_scalar bad_template (Str ''a@b'') (StrKey ''password'')
        = Inr (Str (redacted_text bad_template))
   \<and> redact_value py_scalar bad_template (Str ''a@b'') (StrKey ''query'') = Inl Re_error
   \<and> PrivacyConfig.enabled scrub_any_password
   \<and> redact_payload py_scalar scrub_any_password nested_payload
        = Inr (Dict [(StrKey ''items'', List [Dict [(StrKey ''password'', Str ''[REDACTED]'')]])])
   \<and> node_path py_scalar nested_payload (StrKey []) [0, 0, 0] = Some (StrKey ''items[0].password'')
   \<and> scrub_check py_scalar scrub_any_password (StrKey ''items[0].password'') = Inr True
   \<and> scrub_check py_scalar scrub_any_password (StrKey ''items[0]'') = Inr False
   \<and> scrub_check py_scalar scrub_any_password (StrKey ''items'') = Inr False
   \<and> subtree (Dict [(StrKey ''items'', List [Dict [(StrKey ''password'', Str ''[REDACTED]'')]])])
        [0, 0, 0] = Some (Str (redacted_text scrub_any_password) :: pyval)"
proof -
  have c: "PrivacyConfig.enabled scrub_password \<and> scrub_paths scrub_password = [''input.password'']
   \<and> redacted_text scrub_password = ''[REDACTED]''
   \<and> PrivacyConfig.redact_patterns scrub_password = [at_sign]
   \<and> custom_redactor scrub_password = None"
    by (simp add: scrub_password_def add_scrub_path_def PrivacyConfig_default_def)
  have e: "PrivacyConfig.enabled scrub_any_password"
    by (simp add: scrub_any_password_def add_scrub_path_def PrivacyConfig_default_def)
  have anc: "\<forall>n<length [0::nat, 0, 0]. \<forall>q. node_path py_scalar nested_payload (StrKey []) (take n [0, 0, 0]) = Some q
                \<longrightarrow> scrub_check py_scalar scrub_any_password q = Inr False"
  proof (intro allI impI)
    fix n q
    assume n: "n < length [0::nat, 0, 0]"
      and q: "node_path py_scalar nested_payload (StrKey []) (take n [0, 0, 0]) = Some q"
    from n have "n = 0 \<or> n = 1 \<or> n = 2" by auto
    then show "scrub_check py_scalar scrub_any_password q = Inr False"
      using q nested_paths any_password_checks root_check by auto
  qed
  have u: "redact_value py_scalar bad_template (Str ''a@b'') (StrKey ''query'') = Inl Re_error"
    by (simp add: bad_template_checks bad_template_string)
  note t1 = scrub_path_before_patterns[of scrub_password py_scalar bad_template
      "StrKey ''password''" "Str ''a@b''"]
  note t2 = scrub_path_before_patterns[of _ py_scalar scrub_any_password _ _ nested_payload
      "Dict [(StrKey ''items'', List [Dict [(StrKey ''password'', Str ''[REDACTED]'')]])]"
      "[0, 0, 0]" "StrKey ''items[0].password''"]
  have s1: "redact_payload py_scalar scrub_password login_payload
        = Inr (Dict [(StrKey ''input'',
                      Dict [(StrKey ''password'', Str ''[REDACTED]''),
                            (StrKey ''query'', Str ''hello'')])])"
    using t1[THEN conjunct1] c at_sign_none by (simp add: login_payload_def)
  have s2: "redact_value py_scalar bad_template (Str ''a@b'') (StrKey ''password'')
        = Inr (Str (redacted_text bad_template))"
    using t1[THEN conjunct2, THEN conjunct1] bad_template_checks(1) by simp
  have s3: "subtree (Dict [(StrKey ''items'', List [Dict [(StrKey ''password'', Str ''[REDACTED]'')]])])
        [0, 0, 0] = Some (Str (redacted_text scrub_any_password) :: pyval)"
    using t2[THEN conjunct2, THEN conjunct2] e nested_redacted nested_paths(4)
      any_password_checks(3) anc
    by blast
  show ?thesis
    using c e s1 s2 s3 u at_sign_none(1) nested_redacted nested_paths(4) any_password_checks
      bad_template_checks(1)
    by simp
qed

text \<open>
  C5, as stated, fails in three ways. A custom redactor rewrites a string leaf although
  no pattern and no scrub path is configured. A replacement text that is not a valid
  template (a lone backslash) makes \<^verbatim>\<open>pattern.sub\<close> raise although the pattern matches
  nothing. A dict key that is not a string becomes the path, and the scrub test raises
  AttributeError on it, although no scrub path is configured.
\<close>

theorem round_trip_counterexample:
  "PrivacyConfig.enabled masking \<and> PrivacyConfig.redact_patterns masking = [] \<and> scrub_paths masking = []
   \<and> redact_payload py_scalar masking (Str ''hello'') = Inr (Str ''***'')
   \<and> PrivacyConfig.redact_patterns bad_template = [at_sign] \<and> finditer at_sign ''hello'' = []
   \<and> redact_payload py_scalar bad_template (Str ''hello'') = Inl Re_error
   \<and> scrub_paths PrivacyConfig_default = [] \<and> PrivacyConfig.redact_patterns PrivacyConfig_default = []
   \<and> redact_payload py_scalar PrivacyConfig_default int_key_payload = Inl Attribute_error"
proof -
  have a: "redact_payload py_scalar masking (Str ''hello'') = Inr (Str ''***'')"
    by (simp add: masking_def PrivacyConfig_default_def redact_payload_def redact_string_def
        root_check)
  have b: "redact_payload py_scalar bad_template (Str ''hello'') = Inl Re_error"
    by (simp add: bad_template_def add_scrub_path_def PrivacyConfig_default_def redact_payload_def
        redact_string_def root_check sub_text_def lone_backslash)
       (simp add: at_sign_def lone_backslash)
  have c: "redact_payload py_scalar PrivacyConfig_default int_key_payload = Inl Attribute_error"
    by (simp add: PrivacyConfig_default_def redact_payload_def int_key_payload_def root_check
        key_path_def truthy_key_def scrub_check_def py_scalar_def)
  show ?thesis
    using a b c at_sign_none(1)
    by (simp add: masking_def bad_template_def add_scrub_path_def PrivacyConfig_default_def)
qed

text \<open>
  C5, amended. For every payload built from dicts, lists, strings and scalars, in which no
  string leaf matches any configured pattern, every key path of the walk is formed
  without an exception and passes the scrub test with the answer False, the custom
  redactor, if one is configured, returns every string leaf unchanged, and the replacement
  text is a valid template of every configured pattern (it is when it holds no backslash)
  or hashing is on, \<^verbatim>\<open>redact_payload\<close> returns a value equal to the input payload.
\<close>

theorem redact_round_trip:
  assumes "\<forall>s\<in>set (string_leaves v). \<forall>p\<in>set (PrivacyConfig.redact_patterns cfg). finditer p s = []"
    and "\<forall>q\<in>set (key_paths py v (StrKey [])). \<exists>p. q = Inr p \<and> scrub_check py cfg p = Inr False"
    and "\<forall>f. custom_redactor cfg = Some f \<longrightarrow> (\<forall>s\<in>set (string_leaves v). f s = s)"
    and "hash_pii cfg \<or> (\<forall>p\<in>set (PrivacyConfig.redact_patterns cfg).
            CHR 0x5C \<notin> set (redacted_text cfg) \<or> template p (redacted_text cfg) \<noteq> None)"
  shows "redact_payload py cfg v = Inr v"
proof (cases "PrivacyConfig.enabled cfg")
  case True
  have "redact_value py cfg v (StrKey []) = Inr v"
    using assms(1,2,3) by (intro redact_value_no_match(1)[OF assms(4)] root_check) auto
  with True show ?thesis by (simp add: redact_payload_def)
next
  case False
  then show ?thesis by (simp add: redact_payload_def)
qed

theorem redact_round_trip_witness:
  "string_leaves query_payload = [''hello'', ''a'']
   \<and> PrivacyConfig.redact_patterns scrub_password = [at_sign]
   \<and> finditer at_sign ''hello'' = [] \<and> finditer at_sign ''a'' = []
   \<and> key_paths py_scalar query_payload (StrKey [])
       = [Inr (StrKey ''input''), Inr (StrKey ''input.query''), Inr (StrKey ''input.tags''),
          Inr (StrKey ''input.tags[0]''), Inr (StrKey ''input.tags[1]'')]
   \<and> list_all (\<lambda>q. scrub_check py_scalar scrub_password q = Inr False)
        [StrKey ''input'', StrKey ''input.query'', StrKey ''input.tags'',
         StrKey ''input.tags[0]'', StrKey ''input.tags[1]'']
   \<and> custom_redactor scrub_password = None
   \<and> \<not> hash_pii scrub_password \<and> CHR 0x5C \<notin> set (redacted_text scrub_password)
   \<and> redact_payload py_scalar scrub_password query_payload = Inr query_payload"
proof -
  have l: "string_leaves query_payload = [''hello'', ''a'']"
    by (simp add: query_payload_def)
  have k: "key_paths py_scalar query_payload (StrKey [])
       = [Inr (StrKey ''input''), Inr (StrKey ''input.query''), Inr (StrKey ''input.tags''),
          Inr (StrKey ''input.tags[0]''), Inr (StrKey ''input.tags[1]'')]"
    by (simp add: query_payload_def str_key_path str_item_path str_nat_digits)
  have c: "PrivacyConfig.redact_patterns scrub_password = [at_sign]
      \<and> custom_redactor scrub_password = None
      \<and> scrub_paths scrub_password = [''input.password'']
      \<and> \<not> hash_pii scrub_password \<and> redacted_text scrub_password = ''[REDACTED]''"
    by (simp add: scrub_password_def add_scrub_path_def PrivacyConfig_default_def)
  have p: "list_all (\<lambda>q. scrub_check py_scalar scrub_password q = Inr False)
        [StrKey ''input'', StrKey ''input.query'', StrKey ''input.tags'',
         StrKey ''input.tags[0]'', StrKey ''input.tags[1]'']"
    using c by (simp add: str_key_check should_scrub_path_def lower_def lower_char_def endswith_def)
  have h1: "\<forall>s\<in>set (string_leaves query_payload).
              \<forall>p\<in>set (PrivacyConfig.redact_patterns scrub_password). finditer p s = []"
    using l c at_sign_none by simp
  have h2: "\<forall>q\<in>set (key_paths py_scalar query_payload (StrKey [])).
              \<exists>p. q = Inr p \<and> scrub_check py_scalar scrub_password p = Inr False"
    unfolding k using p by simp
  have h3: "\<forall>f. custom_redactor scrub_password = Some f
              \<longrightarrow> (\<forall>s\<in>set (string_leaves query_payload). f s = s)"
    using c by simp
  have h4: "hash_pii scrub_password \<or> (\<forall>p\<in>set (PrivacyConfig.redact_patterns scrub_password).
            CHR 0x5C \<notin> set (redacted_text scrub_password)
            \<or> template p (redacted_text scrub_password) \<noteq> None)"
    using c by simp
  show ?thesis
    using redact_round_trip[OF h1 h2 h3 h4] l k c p at_sign_none by simp
qed

section \<open>Properties of the span lifecycle\<close>

lemma map_of_dict_set: "map_of (dict_set k v kvs) k = Some v"
  by (induction kvs) auto

lemma ended_after_end: "ended (fst (end_span ext now st))"
  by (simp add: end_span_def Let_def)

text \<open>
  C2. Calling \<^verbatim>\<open>end()\<close> a second time changes nothing: the span (its \<^verbatim>\<open>end_time\<close> included)
  and the SDK state (the batching client with its buffer included) are what the first
  call left, whatever the clock says at the second call. The model of \<^verbatim>\<open>end\<close> is total: no
  branch of it raises.
\<close>

theorem end_twice_is_end_once:
  "end_span ext now2 (end_span ext now1 st) = end_span ext now1 st
   \<and> end_time (fst (end_span ext now2 (end_span ext now1 st))) = end_time (fst (end_span ext now1 st))
   \<and> batching_client (snd (end_span ext now2 (end_span ext now1 st)))
       = batching_client (snd (end_span ext now1 st))"
  by (simp add: end_span_def Let_def)

lemma map_of_dict_set_if:
  "map_of (dict_set k v kvs) k' = (if k' = k then Some v else map_of kvs k')"
  by (induction kvs) auto

lemma build_payload_input:
  "build_payload ext cfg sp = Some p \<Longrightarrow>
   map_of p ''input'' =
     (if input_data sp \<noteq> Scalar SNone \<and> capture_input cfg
      then map_option Value (safe_serialize ext (input_data sp) 10000) else None)"
  by (auto simp: build_payload_def Let_def map_of_dict_set_if split: if_splits option.splits)

lemma build_payload_some:
  assumes "input_data sp = Scalar SNone \<or> \<not> capture_input cfg
           \<or> safe_serialize ext (input_data sp) 10000 \<noteq> None"
    and "output_data sp = Scalar SNone \<or> \<not> capture_output cfg
           \<or> safe_serialize ext (output_data sp) 10000 \<noteq> None"
  shows "\<exists>p. build_payload ext cfg sp = Some p"
  using assms by (auto simp: build_payload_def Let_def split: option.splits)

lemma send_edge_payload:
  "send_edge ext sp sdk = Some e \<Longrightarrow> config sdk = Some cfg \<Longrightarrow>
   build_payload ext cfg sp = Some (payload e)"
  by (auto simp: send_edge_def Let_def split: if_splits option.splits)

lemma send_edge_some:
  assumes "initialized sdk" and "config sdk = Some cfg" and "SDKConfig.enabled cfg"
    and "build_payload ext cfg sp = Some p"
    and "trace_id sp = [] \<or> int16 ext (take 8 (trace_id sp)) \<noteq> None"
  shows "\<exists>e. send_edge ext sp sdk = Some e"
  using assms by (auto simp: send_edge_def Let_def split: option.splits)

lemma end_span_inserts:
  assumes "\<not> ended sp" and "batching_client sdk = Some c"
    and "send_edge ext (sp\<lparr>ended := True, end_time := Some now\<rparr>) sdk = Some e"
  shows "end_span ext now (sp, sdk)
           = (sp\<lparr>ended := True, end_time := Some now\<rparr>,
              sdk\<lparr>batching_client := Some (client_insert ext e c)\<rparr>)"
  using assms by (simp add: end_span_def send_def Let_def)

text \<open>
  What \<^verbatim>\<open>end()\<close> delivers: on a span that is not yet ended, with the SDK initialized and
  enabled, input capture on, a batching client present and a trace id that
  \<^verbatim>\<open>int(trace_id[:8], 16)\<close> accepts, one edge goes to the batching client, and its input is
  what \<^verbatim>\<open>_safe_serialize\<close> made of the data the caller set.
\<close>

lemma end_span_delivers:
  assumes "\<not> ended sp" and "initialized sdk" and "config sdk = Some cfg"
    and "SDKConfig.enabled cfg" and "capture_input cfg" and "batching_client sdk = Some c"
    and "int16 ext (take 8 (trace_id sp)) \<noteq> None"
    and "input_data sp \<noteq> Scalar SNone"
    and "safe_serialize ext (input_data sp) 10000 = Some d"
    and "output_data sp = Scalar SNone"
  shows "\<exists>e. snd (end_span ext now (sp, sdk)) = sdk\<lparr>batching_client := Some (client_insert ext e c)\<rparr>
             \<and> map_of (payload e) ''input'' = Some (Value d)"
proof -
  let ?sp = "sp\<lparr>ended := True, end_time := Some now\<rparr>"
  have "\<exists>p. build_payload ext cfg ?sp = Some p"
    using assms(9,10) by (intro build_payload_some) simp_all
  then obtain p where p: "build_payload ext cfg ?sp = Some p" ..
  have "trace_id ?sp = [] \<or> int16 ext (take 8 (trace_id ?sp)) \<noteq> None"
    using assms(7) by simp
  from send_edge_some[OF assms(2,3,4) p this]
  obtain e where e: "send_edge ext ?sp sdk = Some e" ..
  have "build_payload ext cfg ?sp = Some (payload e)"
    by (rule send_edge_payload[OF e assms(3)])
  from build_payload_input[OF this]
  have i: "map_of (payload e) ''input'' = Some (Value d)"
    using assms(5,8,9) by simp
  show ?thesis
    using end_span_inserts[OF assms(1,6) e] i by auto
qed

lemma generate_id_0: "generate_id 0 = ''0000000000004000''"
  by code_simp

lemma ready_sdk_fields:
  "initialized ready_sdk"
  "config ready_sdk = Some (build_config python Map.empty no_args)"
  "batching_client ready_sdk
     = Some \<lparr> buffer = [], dropped_count = 0, retry_queue = [], last_error = None,
              BatchingClient.batch_size = 100, BatchingClient.flush_interval = 5,
              max_buffer_size = 10000 \<rparr>"
  by (simp_all add: ready_sdk_def init_def sdk_initial_def build_config_def no_args_def Let_def
       get_env_bool_def get_env_int_def get_env_float_def python_def lower_def)

lemma default_config_fields:
  "SDKConfig.enabled (build_config python Map.empty no_args)"
  "capture_input (build_config python Map.empty no_args)"
  "capture_output (build_config python Map.empty no_args)"
  by (simp_all add: build_config_def no_args_def get_env_bool_def lower_def)

lemma login_span_fields:
  "\<not> ended login_span" "trace_id login_span = ''0000000000004000''"
  "input_data login_span = Dict [(StrKey ''password'', Str ''secret123'')]"
  "output_data login_span = Scalar SNone"
  by (simp_all add: login_span_def set_input_def ActiveSpan_init_def or_else_def generate_id_0)

lemma set_error_fields:
  "ended (set_error e stack sp) = ended sp" "trace_id (set_error e stack sp) = trace_id sp"
  "input_data (set_error e stack sp) = input_data sp"
  "output_data (set_error e stack sp) = output_data sp"
  by (simp_all add: set_error_def)

lemma login_trace_ok: "int16 python (take 8 ''0000000000004000'') \<noteq> None"
  by (simp add: python_def hex_int_def digit_value_def)

lemma login_serialized:
  "safe_serialize python (Dict [(StrKey ''password'', Str ''secret123'')]) 10000
     = Some (Dict [(StrKey ''password'', Str ''secret123'')])"
  by (simp add: safe_serialize_def python_def dumps_def quoted_def escape_char_def)

lemma login_delivered:
  assumes "\<not> ended sp" and "trace_id sp = ''0000000000004000''"
    and "input_data sp = Dict [(StrKey ''password'', Str ''secret123'')]"
    and "output_data sp = Scalar SNone"
  shows "buffered_inputs (snd (end_span python now (sp, ready_sdk)))
           = [Some (Value (Dict [(StrKey ''password'', Str ''secret123'')]))]"
proof -
  have t: "int16 python (take 8 (trace_id sp)) \<noteq> None"
    using login_trace_ok assms(2) by simp
  have i: "input_data sp \<noteq> Scalar SNone"
    using assms(3) by simp
  have s: "safe_serialize python (input_data sp) 10000
             = Some (Dict [(StrKey ''password'', Str ''secret123'')])"
    using login_serialized assms(3) by simp
  from end_span_delivers[OF assms(1) ready_sdk_fields(1,2) default_config_fields(1,2)
      ready_sdk_fields(3) t i s assms(4), of now]
  obtain e where e: "snd (end_span python now (sp, ready_sdk))
        = ready_sdk\<lparr>batching_client := Some (client_insert python e
             \<lparr> buffer = [], dropped_count = 0, retry_queue = [], last_error = None,
               BatchingClient.batch_size = 100, BatchingClient.flush_interval = 5,
               max_buffer_size = 10000 \<rparr>)\<rparr>"
    and p: "map_of (payload e) ''input'' = Some (Value (Dict [(StrKey ''password'', Str ''secret123'')]))"
    by blast
  show ?thesis
    unfolding e using p by (simp add: buffered_inputs_def python_def insert_edge_def)
qed

lemma password_scrubbed:
  "redact_payload py_scalar scrub_any_password (Dict [(StrKey ''password'', Str ''secret123'')])
     = Inr (Dict [(StrKey ''password'', Str ''[REDACTED]'')])"
  by (simp add: redact_payload_def scrub_any_password_def add_scrub_path_def
      PrivacyConfig_default_def root_check str_key_path str_key_check should_scrub_path_def
      lower_plain)

text \<open>
  C1 fails in the code. With a privacy configuration that scrubs every \<^verbatim>\<open>password\<close> key,
  \<^verbatim>\<open>redact_payload\<close> turns the input \<^verbatim>\<open>{'password': 'secret123'}\<close> into
  \<^verbatim>\<open>{'password': '[REDACTED]'}\<close>. The span that holds this input, ended on the SDK as
  \<^verbatim>\<open>init()\<close> leaves it (whose buffer is empty), puts one edge into the buffer of the batching
  client, and the input of that edge is the password as the caller set it. The same edge
  is delivered when the span is ended by the context-manager exit, without an exception
  and with one: \<^verbatim>\<open>_send\<close> applies no redaction.
\<close>

theorem end_sends_unredacted:
  "redact_payload py_scalar scrub_any_password (Dict [(StrKey ''password'', Str ''secret123'')])
     = Inr (Dict [(StrKey ''password'', Str ''[REDACTED]'')])
   \<and> input_data login_span = Dict [(StrKey ''password'', Str ''secret123'')]
   \<and> buffered_inputs ready_sdk = []
   \<and> buffered_inputs (snd (end_span python 2 (login_span, ready_sdk)))
       = [Some (Value (Dict [(StrKey ''password'', Str ''secret123'')]))]
   \<and> buffered_inputs (snd (exit_span python None 2 (login_span, ready_sdk)))
       = [Some (Value (Dict [(StrKey ''password'', Str ''secret123'')]))]
   \<and> buffered_inputs (snd (exit_span python (Some login_failure) 2 (login_span, ready_sdk)))
       = [Some (Value (Dict [(StrKey ''password'', Str ''secret123'')]))]"
proof -
  have a: "buffered_inputs (snd (end_span python 2 (login_span, ready_sdk)))
       = [Some (Value (Dict [(StrKey ''password'', Str ''secret123'')]))]"
    by (rule login_delivered[OF login_span_fields])
  have b: "buffered_inputs (snd (exit_span python None 2 (login_span, ready_sdk)))
       = [Some (Value (Dict [(StrKey ''password'', Str ''secret123'')]))]"
    using a by (simp add: exit_span_def)
  have "buffered_inputs (snd (end_span python 2
            (set_error (fst login_failure) (snd login_failure) login_span, ready_sdk)))
       = [Some (Value (Dict [(StrKey ''password'', Str ''secret123'')]))]"
    by (rule login_delivered) (simp_all add: set_error_fields login_span_fields)
  then have c: "buffered_inputs (snd (exit_span python (Some login_failure) 2 (login_span, ready_sdk)))
       = [Some (Value (Dict [(StrKey ''password'', Str ''secret123'')]))]"
    by (simp add: exit_span_def login_failure_def)
  have d: "buffered_inputs ready_sdk = []"
    by (simp add: buffered_inputs_def ready_sdk_fields)
  show ?thesis
    using a b c d password_scrubbed login_span_fields(3) by simp
qed

text \<open>
  C3, as stated, fails: on a span that has been ended, each of the five mutators still
  changes its field.
\<close>

theorem mutators_after_end_counterexample:
  "ended closed_span
   \<and> input_data (set_input (Str ''late'') closed_span) \<noteq> input_data closed_span
   \<and> output_data (set_output (Str ''late'') closed_span) \<noteq> output_data closed_span
   \<and> ActiveSpan.attributes (set_attribute ''k'' (Str ''v'') closed_span)
       \<noteq> ActiveSpan.attributes closed_span
   \<and> error (set_error \<lparr>exn_type = ''KeyError'', exn_message = ''k''\<rparr> [] closed_span)
       \<noteq> error closed_span
   \<and> token_usage (set_token_usage None None (Some 7) closed_span) \<noteq> token_usage closed_span"
  by (simp add: closed_span_def end_span_def ActiveSpan_init_def set_input_def set_output_def
      set_attribute_def set_error_def set_token_usage_def Let_def)

lemma ended_set_token_usage: "ended (set_token_usage p c t sp) = ended sp"
  by (simp add: set_token_usage_def Let_def split: option.splits)

lemma end_time_set_token_usage: "end_time (set_token_usage p c t sp) = end_time sp"
  by (simp add: set_token_usage_def Let_def split: option.splits)

lemma total_set_token_usage:
  "map_of (token_usage (set_token_usage p c (Some n) sp)) ''total'' = Some n"
  by (simp add: set_token_usage_def Let_def map_of_dict_set split: option.splits)

text \<open>
  C3, amended. The mutators do not look at the ended flag: on every span, ended or not,
  \<^verbatim>\<open>set_input\<close>, \<^verbatim>\<open>set_output\<close>, \<^verbatim>\<open>set_attribute\<close>, \<^verbatim>\<open>set_error\<close> and \<^verbatim>\<open>set_token_usage\<close>
  assign their fields; they leave the ended flag and \<^verbatim>\<open>end_time\<close> as they were, and a
  later \<^verbatim>\<open>end()\<close> on a span changed after its end hands nothing more to the batching
  client.
\<close>

theorem mutators_ignore_ended:
  "input_data (set_input d sp) = d
   \<and> output_data (set_output d sp) = d
   \<and> map_of (ActiveSpan.attributes (set_attribute k v sp)) k = Some v
   \<and> error (set_error e stack sp) = Some e
   \<and> map_of (token_usage (set_token_usage p c (Some n) sp)) ''total'' = Some n
   \<and> ended (set_input d sp) = ended sp \<and> end_time (set_input d sp) = end_time sp
   \<and> ended (set_output d sp) = ended sp \<and> end_time (set_output d sp) = end_time sp
   \<and> ended (set_attribute k v sp) = ended sp \<and> end_time (set_attribute k v sp) = end_time sp
   \<and> ended (set_error e stack sp) = ended sp \<and> end_time (set_error e stack sp) = end_time sp
   \<and> ended (set_token_usage p c t sp) = ended sp
   \<and> end_time (set_token_usage p c t sp) = end_time sp
   \<and> end_span ext now2 (set_input d (fst (end_span ext now1 st)), snd (end_span ext now1 st))
       = (set_input d (fst (end_span ext now1 st)), snd (end_span ext now1 st))"
  by (simp add: set_input_def set_output_def set_attribute_def set_error_def map_of_dict_set
      ended_set_token_usage end_time_set_token_usage total_set_token_usage end_span_def Let_def)

section \<open>Properties of init\<close>









section \<open>Properties of the identifiers\<close>

lemma hexdigit_in: "hexdigit n \<in> set ''0123456789abcdef''"
proof -
  have "n mod 16 < length ''0123456789abcdef''" by simp
  then show ?thesis unfolding hexdigit_def by (rule nth_mem)
qed

lemma hex_all: "list_all (\<lambda>c. c \<in> set ''0123456789abcdef'') (hex w)"
  unfolding hex_def list_all_iff using hexdigit_in by auto

text \<open>C6, as stated, fails: a generated id does not have 32 hex digits.\<close>

theorem generate_id_counterexample: "length (generate_id 0) \<noteq> 32"
  by (simp add: generate_id_def hex_def)

text \<open>
  C6, amended. Every id generated when a span or a trace is created, that is the
  \<^verbatim>\<open>span_id\<close> and the \<^verbatim>\<open>trace_id\<close> of a span constructed without them, is the result of
  \<^verbatim>\<open>_generate_id\<close>: the first 16 hexadecimal digits of a random UUID4, a 64-bit value.
\<close>

theorem generate_id_16_hex:
  "length (generate_id r) = 16
   \<and> list_all (\<lambda>c. c \<in> set ''0123456789abcdef'') (generate_id r)
   \<and> span_id (ActiveSpan_init nm knd None pid None now r1 r2) = generate_id r1
   \<and> trace_id (ActiveSpan_init nm knd None pid None now r1 r2) = generate_id r2"
proof -
  have "length (hex (uuid4 r)) = 32" by (simp add: hex_def)
  moreover have "list_all (\<lambda>c. c \<in> set ''0123456789abcdef'') (take 16 (hex (uuid4 r)))"
    using hex_all[of "uuid4 r"] unfolding list_all_iff by (meson in_set_takeD)
  ultimately show ?thesis by (simp add: generate_id_def ActiveSpan_init_def or_else_def)
qed

section \<open>Properties of the diagnostics\<close>

text \<open>
  C7 at a state with an active batching client that has dropped spans and a failed last
  delivery: the dict of \<^verbatim>\<open>get_stats\<close> holds the dropped-span count, but it has no entry for
  the last delivery error, and it is the same dict when there is no such error.
\<close>

theorem get_stats_without_last_error:
  "map_option last_error (batching_client stats_state) = Some (Some ''timeout'')
   \<and> map_of (get_stats stats_state) ''dropped_count'' = Some (SInt 3)
   \<and> map_of (get_stats stats_state) ''last_error'' = None
   \<and> map fst (get_stats stats_state)
       = [''initialized'', ''enabled'', ''debug'', ''queue_size'', ''dropped_count'',
          ''retry_queue_size'']
   \<and> get_stats (stats_state\<lparr>batching_client :=
                   map_option (\<lambda>c. c\<lparr>last_error := None\<rparr>) (batching_client stats_state)\<rparr>)
       = get_stats stats_state"
  by (simp add: get_stats_def stats_state_def)

section \<open>Properties of the callback adapter\<close>

text \<open>
  C9. An end or error event whose run id has no entry in the active-span table raises
  nothing and leaves the adapter as it was: the table is unchanged and no span is sent.
\<close>

theorem missing_key_is_noop:
  "active_spans cb (run_key run_id) = None \<Longrightarrow>
   on_llm_end response run_id now cb = (None, cb) \<and> on_llm_error err run_id now cb = (None, cb)"
  by (simp add: on_llm_end_def on_llm_error_def)

theorem missing_key_is_noop_witness:
  "active_spans (handle gpt_start cb_empty) (run_key (Some ''run-2'')) = None
   \<and> on_llm_end \<lparr> generations = [[''Hi'']], llm_output = None \<rparr> (Some ''run-2'') 11
        (handle gpt_start cb_empty) = (None, handle gpt_start cb_empty)
   \<and> on_llm_error \<lparr> exn_type = ''Timeout'', exn_message = ''slow'' \<rparr> (Some ''run-2'') 11
        (handle gpt_start cb_empty) = (None, handle gpt_start cb_empty)"
proof -
  have a: "active_spans (handle gpt_start cb_empty) (run_key (Some ''run-2'')) = None"
    by (simp add: gpt_start_def cb_empty_def on_llm_start_def Let_def run_key_def)
  show ?thesis
    using a missing_key_is_noop[OF a, of "\<lparr> generations = [[''Hi'']], llm_output = None \<rparr>" 11
        "\<lparr> exn_type = ''Timeout'', exn_message = ''slow'' \<rparr>"]
    by simp
qed

lemma closed_key_absent:
  "closes e = Some r \<Longrightarrow> active_spans (handle e cb) r = None"
  by (cases e)
     (auto simp: on_llm_end_def on_llm_error_def Let_def
           split: option.splits list.splits prod.splits)

lemma absent_preserved:
  "registers e \<noteq> Some r \<Longrightarrow> active_spans cb r = None \<Longrightarrow> active_spans (handle e cb) r = None"
  by (cases e)
     (auto simp: on_llm_start_def on_llm_end_def on_llm_error_def Let_def
           split: option.splits list.splits prod.splits)

lemma absent_run:
  "\<forall>e\<in>set evs. registers e \<noteq> Some r \<Longrightarrow> active_spans cb r = None \<Longrightarrow>
   active_spans (run evs cb) r = None"
  unfolding run_def by (induction evs arbitrary: cb) (auto simp: absent_preserved)

lemma absent_close_noop:
  "closes e = Some r \<Longrightarrow> active_spans cb r = None \<Longrightarrow> handle e cb = cb"
  by (cases e) (auto simp: on_llm_end_def on_llm_error_def Let_def)

text \<open>
  C10, as stated, fails: when a start event registers the run id again, a later end event
  with that run id sends a second span.
\<close>

theorem one_span_per_key_counterexample:
  "length (sent (run [gpt_start, gpt_end, gpt_start, gpt_end] cb_empty)) = 2
   \<and> sent (handle gpt_end (run [gpt_start, gpt_end, gpt_start] cb_empty))
       \<noteq> sent (run [gpt_start, gpt_end, gpt_start] cb_empty)"
  by (simp add: run_def gpt_start_def gpt_end_def cb_empty_def on_llm_start_def on_llm_end_def
      Let_def run_key_def)

text \<open>
  C10, amended. The end handler and the error handler remove the entry of the run id from
  the active-span table, and after an end or error event for a run id, every later end
  or error event with that run id changes nothing and sends nothing, as long as no start
  event has registered the run id again in between.
\<close>

theorem one_span_per_start:
  assumes "closes e1 = Some r" and "closes e2 = Some r"
    and "\<forall>e\<in>set evs. registers e \<noteq> Some r"
  shows "active_spans (handle e1 cb) r = None
         \<and> handle e2 (run evs (handle e1 cb)) = run evs (handle e1 cb)"
  using assms by (intro conjI absent_close_noop absent_run closed_key_absent)

theorem one_span_per_start_witness:
  "closes gpt_end = Some ''run-1'' \<and> closes gpt_error = Some ''run-1''
   \<and> registers gpt_end \<noteq> Some ''run-1''
   \<and> active_spans (handle gpt_end (handle gpt_start cb_empty)) ''run-1'' = None
   \<and> handle gpt_error (run [gpt_end] (handle gpt_end (handle gpt_start cb_empty)))
       = run [gpt_end] (handle gpt_end (handle gpt_start cb_empty))
   \<and> length (sent (handle gpt_error (run [gpt_end] (handle gpt_end (handle gpt_start cb_empty)))))
       = 1"
proof -
  have a: "closes gpt_end = Some ''run-1''" by (simp add: gpt_end_def run_key_def)
  have b: "closes gpt_error = Some ''run-1''" by (simp add: gpt_error_def run_key_def)
  have c: "\<forall>e\<in>set [gpt_end]. registers e \<noteq> Some ''run-1''" by (simp add: gpt_end_def)
  have d: "length (sent (run [gpt_end] (handle gpt_end (handle gpt_start cb_empty)))) = 1"
    by (simp add: run_def gpt_start_def gpt_end_def cb_empty_def on_llm_start_def on_llm_end_def
        Let_def run_key_def)
  show ?thesis
    using one_span_per_start[OF a b c, of "handle gpt_start cb_empty"] a b c d by simp
qed

end

